theory Spec2Isabelle
  imports Main
begin

section \<open>Go strings and the library functions the program calls\<close>

text \<open>
  A Go string is a byte string; it is modelled as a \<open>char list\<close>. The program calls
  \<open>strings.Title\<close>, \<open>strings.ToLower\<close>, \<open>strings.Split\<close> (always with the separator
  \<open>"_"\<close>) and \<open>strings.Contains\<close> of the Go standard library. \<open>Split\<close> and
  \<open>Contains\<close> work on the bytes. \<open>Title\<close> and \<open>ToLower\<close> work on the runes of the
  text: on a text of ASCII characters they are modelled here as Go defines them; on a text
  with a byte above \<open>0x7F\<close> they depend on the UTF-8 decoding and on the Unicode tables
  and are parameters of the model, see the environment below.
\<close>

definition isAscii :: "char \<Rightarrow> bool" where
  "isAscii r = ((of_char r :: nat) \<le> 127)"

definition isDigitAscii :: "char \<Rightarrow> bool" where
  "isDigitAscii r = (48 \<le> (of_char r :: nat) \<and> (of_char r :: nat) \<le> 57)"

definition isLowerAscii :: "char \<Rightarrow> bool" where
  "isLowerAscii r = (97 \<le> (of_char r :: nat) \<and> (of_char r :: nat) \<le> 122)"

definition isUpperAscii :: "char \<Rightarrow> bool" where
  "isUpperAscii r = (65 \<le> (of_char r :: nat) \<and> (of_char r :: nat) \<le> 90)"

text \<open>\<open>unicode.ToTitle\<close> and \<open>unicode.ToLower\<close> on one ASCII character.\<close>

definition toTitle :: "char \<Rightarrow> char" where
  "toTitle r = (if isLowerAscii r then char_of ((of_char r :: nat) - 32) else r)"

definition toLower :: "char \<Rightarrow> char" where
  "toLower r = (if isUpperAscii r then char_of ((of_char r :: nat) + 32) else r)"

text \<open>
  \<open>isSeparator\<close> of package \<open>strings\<close> on an ASCII character: letters, digits and
  the underscore are not separators, every other ASCII character is. The model applies
  it to ASCII characters only.
\<close>

definition isSeparator :: "char \<Rightarrow> bool" where
  "isSeparator r = (\<not> (isDigitAscii r \<or> isLowerAscii r \<or> isUpperAscii r \<or> r = CHR ''_''))"

text \<open>
  \<open>strings.Title\<close> on a text of ASCII characters: it maps over the text remembering
  the previous character (initially a space); a character that follows a separator is
  replaced by its title case. \<open>strings.ToLower\<close> on a text of ASCII characters
  lower-cases every character.
\<close>

fun TitleFrom :: "char \<Rightarrow> string \<Rightarrow> string" where
  "TitleFrom prev [] = []"
| "TitleFrom prev (r # rs) = (if isSeparator prev then toTitle r else r) # TitleFrom r rs"

definition TitleAscii :: "string \<Rightarrow> string" where
  "TitleAscii s = TitleFrom (CHR '' '') s"

definition ToLowerAscii :: "string \<Rightarrow> string" where
  "ToLowerAscii s = map toLower s"

text \<open>
  \<open>strings.Split(s, sep)\<close> for a separator of one byte: the pieces between the
  occurrences of the separator, one more piece than there are occurrences.
\<close>

fun Split :: "string \<Rightarrow> char \<Rightarrow> string list" where
  "Split [] sep = [[]]"
| "Split (r # rs) sep =
     (if r = sep then [] # Split rs sep
      else (case Split rs sep of
              [] \<Rightarrow> [[r]]
            | piece # pieces \<Rightarrow> (r # piece) # pieces))"

text \<open>\<open>strings.HasPrefix\<close> and \<open>strings.Contains\<close>.\<close>

definition HasPrefix :: "string \<Rightarrow> string \<Rightarrow> bool" where
  "HasPrefix s pre = (take (length pre) s = pre)"

fun Contains :: "string \<Rightarrow> string \<Rightarrow> bool" where
  "Contains [] substr = (substr = [])"
| "Contains (r # rs) substr = (HasPrefix (r # rs) substr \<or> Contains rs substr)"

section \<open>Data model\<close>

text \<open>\<open>sql.NullString\<close> and \<open>sql.NullInt64\<close>: a value and a validity flag.\<close>

record NullString =
  String_val :: string
  String_valid :: bool

record NullInt64 =
  Int64_val :: int
  Int64_valid :: bool

record Column =
  OrdinalPosition :: int
  ColumnName :: string
  DataType :: string
  ColumnDefault :: NullString
  IsNullable :: string
  CharacterMaximumLength :: NullInt64
  NumericPrecision :: NullInt64
  ColumnKey :: string
  Extra :: string

record Table =
  TableName :: string
  Columns :: "Column list"

text \<open>The package-level variables set from the command line.\<close>

record Config =
  verbose :: bool
  dbType :: string
  user :: string
  pswd :: string
  dbName :: string
  schema :: string
  host :: string
  port :: string
  outputFilePath :: string
  outputFormat :: string
  packageName :: string
  prefix :: string
  suffix :: string
  isMastermindStructable :: bool
  isMastermindStructableOnly :: bool
  isMastermindStructableRecorder :: bool

section \<open>The environment: file system, formatter and database\<close>

text \<open>A Go \<open>error\<close> value with its message.\<close>

datatype error = Error string

text \<open>
  The libraries and the outside world the program talks to are parameters of the model:
  \<^item> \<open>formatSource\<close> is \<open>format.Source\<close>, which returns the formatted text or an error
    (and then a nil slice);
  \<^item> \<open>osCreate\<close> tells for a path whether \<open>os.Create\<close> fails;
  \<^item> \<open>sqlxConnect\<close> is \<open>sqlx.Connect\<close> for a driver name and a data source name, and
    \<open>dbPing\<close> is \<open>db.Ping\<close>;
  \<^item> \<open>dbSelectTables\<close> is the table query for a scope name, giving the table names;
  \<^item> \<open>dbPreparex\<close> tells whether preparing the column query fails;
  \<^item> \<open>stmtSelect\<close> is the prepared column query for a table name and a scope name;
  \<^item> \<open>fmtQuote\<close> is the verb \<open>%q\<close> of package \<open>fmt\<close> on a string;
  \<^item> \<open>unicodeTitle\<close> and \<open>unicodeToLower\<close> are \<open>strings.Title\<close> and
    \<open>strings.ToLower\<close> on a text that has a byte above \<open>0x7F\<close>.
  Texts printed to the standard output are not modelled.
\<close>

record Env =
  formatSource :: "string \<Rightarrow> error + string"
  osCreate :: "string \<Rightarrow> error option"
  sqlxConnect :: "string \<Rightarrow> string \<Rightarrow> error option"
  dbPing :: "error option"
  dbSelectTables :: "string \<Rightarrow> error + string list"
  dbPreparex :: "error option"
  stmtSelect :: "string \<Rightarrow> string \<Rightarrow> error + Column list"
  fmtQuote :: "string \<Rightarrow> string"
  unicodeTitle :: "string \<Rightarrow> string"
  unicodeToLower :: "string \<Rightarrow> string"

text \<open>The files written so far: a map from a path to the content of the file.\<close>

type_synonym FileSystem = "string \<rightharpoonup> string"

text \<open>
  \<open>strings.Title\<close> and \<open>strings.ToLower\<close>: as defined above on a text of ASCII
  characters, as the environment gives them on any other text.
\<close>

definition Title :: "Env \<Rightarrow> string \<Rightarrow> string" where
  "Title env s = (if list_all isAscii s then TitleAscii s else unicodeTitle env s)"

definition ToLower :: "Env \<Rightarrow> string \<Rightarrow> string" where
  "ToLower env s = (if list_all isAscii s then ToLowerAscii s else unicodeToLower env s)"

section \<open>Type mapper\<close>

text \<open>
  \<open>mapDbColumnTypeToGoType\<close>: a switch over the data type; the nullable variant is
  chosen when the nullability text is exactly \<open>"YES"\<close>.
\<close>

definition mapDbColumnTypeToGoType :: "string \<Rightarrow> string \<Rightarrow> string \<times> bool" where
  "mapDbColumnTypeToGoType dbDataType isNullable =
     (if dbDataType \<in> set [''integer'', ''bigint'', ''bigserial'', ''smallint'',
                            ''smallserial'', ''serial'', ''int'', ''tinyint'', ''mediumint'']
      then (if isNullable = ''YES'' then ''sql.NullInt64'' else ''int'', False)
      else if dbDataType \<in> set [''double precision'', ''numeric'', ''decimal'', ''real'',
                                 ''float'', ''double'']
      then (if isNullable = ''YES'' then ''sql.NullFloat64'' else ''float64'', False)
      else if dbDataType \<in> set [''character varying'', ''character'', ''text'',
                                 ''char'', ''varchar'', ''binary'', ''varbinary'', ''blob'']
      then (if isNullable = ''YES'' then ''sql.NullString'' else ''string'', False)
      else if dbDataType \<in> set [''time'', ''timestamp'', ''time with time zone'',
                                 ''timestamp with time zone'', ''time without time zone'',
                                 ''timestamp without time zone'', ''date'', ''datetime'', ''year'']
      then (if isNullable = ''YES'' then ''pq.NullTime'' else ''time.Time'', True)
      else if dbDataType \<in> set [''boolean'']
      then (if isNullable = ''YES'' then ''sql.NullBool'' else ''bool'', False)
      else (''sql.NullString'', False))"

subsection \<open>The mapping table of the specification\<close>

text \<open>
  The specification tabulates the mapping by semantic family. The table is written
  down here from the specification's words, to be compared with the function above.
\<close>

datatype family = IntegerFamily | FloatFamily | TextFamily | TemporalFamily | BooleanFamily

fun spec_members :: "family \<Rightarrow> string list" where
  "spec_members IntegerFamily =
     [''integer'', ''bigint'', ''bigserial'', ''smallint'', ''smallserial'', ''serial'',
      ''int'', ''tinyint'', ''mediumint'']"
| "spec_members FloatFamily =
     [''double precision'', ''numeric'', ''decimal'', ''real'', ''float'', ''double'']"
| "spec_members TextFamily =
     [''character varying'', ''character'', ''text'', ''char'', ''varchar'', ''binary'',
      ''varbinary'', ''blob'']"
| "spec_members TemporalFamily =
     [''time'', ''timestamp'', ''time with time zone'', ''time without time zone'',
      ''timestamp with time zone'', ''timestamp without time zone'', ''date'', ''datetime'',
      ''year'']"
| "spec_members BooleanFamily = [''boolean'']"

fun spec_plain :: "family \<Rightarrow> string" where
  "spec_plain IntegerFamily = ''int''"
| "spec_plain FloatFamily = ''float64''"
| "spec_plain TextFamily = ''string''"
| "spec_plain TemporalFamily = ''time.Time''"
| "spec_plain BooleanFamily = ''bool''"

fun spec_wrapper :: "family \<Rightarrow> string" where
  "spec_wrapper IntegerFamily = ''sql.NullInt64''"
| "spec_wrapper FloatFamily = ''sql.NullFloat64''"
| "spec_wrapper TextFamily = ''sql.NullString''"
| "spec_wrapper TemporalFamily = ''pq.NullTime''"
| "spec_wrapper BooleanFamily = ''sql.NullBool''"

definition spec_family_of :: "string \<Rightarrow> family option" where
  "spec_family_of t =
     List.find (\<lambda>f. t \<in> set (spec_members f))
       [IntegerFamily, FloatFamily, TextFamily, TemporalFamily, BooleanFamily]"

definition spec_type_table :: "string \<Rightarrow> bool \<Rightarrow> string \<times> bool" where
  "spec_type_table t nullable =
     (case spec_family_of t of
        None \<Rightarrow> (''sql.NullString'', False)
      | Some f \<Rightarrow> (if nullable then spec_wrapper f else spec_plain f, f = TemporalFamily))"

text \<open>The nullable wrapper types that the specification's table names.\<close>

definition spec_is_nullable_wrapper :: "string \<Rightarrow> bool" where
  "spec_is_nullable_wrapper goType =
     (goType \<in> set (map spec_wrapper
        [IntegerFamily, FloatFamily, TextFamily, TemporalFamily, BooleanFamily]))"

section \<open>Identifier formatter\<close>

text \<open>
  \<open>camelCaseString\<close>: split at the underscores; a single piece is returned through
  \<open>strings.Title\<close>, otherwise the pieces are lower-cased, passed through
  \<open>strings.Title\<close> and appended to the result one after the other.
\<close>

definition camelCaseString :: "Env \<Rightarrow> string \<Rightarrow> string" where
  "camelCaseString env s =
     (let splitted = Split s (CHR ''_'') in
      if length splitted = 1 then Title env s
      else foldl (\<lambda>cc part. cc @ Title env (ToLower env part)) [] splitted)"

text \<open>
  \<open>createStructOfTable\<close> formats a column name and the composed table name by the same
  two statements: \<open>strings.Title\<close>, followed by \<open>camelCaseString\<close> when the output
  format is \<open>"c"\<close>.
\<close>

definition formatName :: "Env \<Rightarrow> Config \<Rightarrow> string \<Rightarrow> string" where
  "formatName env cfg name =
     (let titled = Title env name in
      if outputFormat cfg = ''c'' then camelCaseString env titled else titled)"

text \<open>What the specification calls capitalizing the first letter of a text.\<close>

definition spec_capitalize_first :: "string \<Rightarrow> string" where
  "spec_capitalize_first s = (case s of [] \<Rightarrow> [] | r # rs \<Rightarrow> toTitle r # rs)"

section \<open>Struct emitter\<close>

abbreviation (input) TAB :: char where
  "TAB \<equiv> CHR 0x09"

text \<open>
  The variables that the loop over the columns of \<open>createStructOfTable\<close> updates.
  \<open>timeIndicator\<close> is a Go \<open>int\<close>; it counts columns, so it is modelled as an
  unbounded integer.
\<close>

record LoopState =
  colBuffer :: string
  isNullable :: bool
  timeIndicator :: int
  mastermindStructableAnnotation :: string

definition initialState :: LoopState where
  "initialState =
     \<lparr>colBuffer = [], isNullable = False, timeIndicator = 0,
      mastermindStructableAnnotation = []\<rparr>"

text \<open>The local variable \<open>isPk\<close>: the marker tokens or the empty string.\<close>

definition isPk :: "Column \<Rightarrow> string" where
  "isPk column =
     (if Contains (String_val (ColumnDefault column)) ''nextval'' \<or>
         (Contains (ColumnKey column) ''PRI'' \<and> Contains (Extra column) ''auto_increment'')
      then '',PRIMARY_KEY,SERIAL,AUTO_INCREMENT''
      else [])"

text \<open>One iteration of the loop over the columns.\<close>

definition columnStep :: "Env \<Rightarrow> Config \<Rightarrow> LoopState \<Rightarrow> Column \<Rightarrow> LoopState" where
  \<open>columnStep env cfg st column =
     (let colName = formatName env cfg (ColumnName column);
          mapped = mapDbColumnTypeToGoType (DataType column) (IsNullable column);
          colType = fst mapped;
          isTime = snd mapped;
          annotation =
            (if isMastermindStructable cfg \<or> isMastermindStructableOnly cfg
             then '' stbl:"'' @ ColumnName column @ isPk column @ ''"''
             else mastermindStructableAnnotation st);
          line =
            (if isMastermindStructableOnly cfg
             then TAB # colName @ '' '' @ colType @ '' `'' @ annotation @ ''`\<newline>''
             else TAB # colName @ '' '' @ colType @ '' `db:"'' @ ColumnName column @ ''"'' @
                  annotation @ ''`\<newline>'')
      in \<lparr>colBuffer = colBuffer st @ line,
          isNullable = (isNullable st \<or> IsNullable column = ''YES''),
          timeIndicator = (if isTime then timeIndicator st + 1 else timeIndicator st),
          mastermindStructableAnnotation = annotation\<rparr>)\<close>

definition columnLoop :: "Env \<Rightarrow> Config \<Rightarrow> Table \<Rightarrow> LoopState" where
  "columnLoop env cfg table = foldl (columnStep env cfg) initialState (Columns table)"

text \<open>The variable \<open>tableName\<close>: the name of the struct and the stem of the file name.\<close>

definition structName :: "Env \<Rightarrow> Config \<Rightarrow> Table \<Rightarrow> string" where
  "structName env cfg table = formatName env cfg (prefix cfg @ TableName table @ suffix cfg)"

text \<open>
  The import part (\<open>// do imports\<close>), as the list of the texts written to the buffer,
  in the order of the \<open>WriteString\<close> calls.
\<close>

definition importWrites :: "Config \<Rightarrow> LoopState \<Rightarrow> string list" where
  \<open>importWrites cfg st =
     (if isNullable st \<or> timeIndicator st > 0 \<or>
         isMastermindStructable cfg \<or> isMastermindStructableOnly cfg
      then [''import (\<newline>''] @
           (if isNullable st then [TAB # ''"database/sql"\<newline>''] else []) @
           (if timeIndicator st > 0
            then (if isNullable st
                  then [TAB # ''\<newline>"github.com/lib/pq"\<newline>'']
                  else [TAB # ''"time"\<newline>''])
            else []) @
           (if isMastermindStructableRecorder cfg \<and>
               (isMastermindStructable cfg \<or> isMastermindStructableOnly cfg)
            then [TAB # ''\<newline>"github.com/Masterminds/structable"\<newline>'']
            else []) @
           ['')\<newline>\<newline>'']
      else [])\<close>

text \<open>The content of \<open>buffer\<close> when it is handed to \<open>format.Source\<close>.\<close>

definition structSource :: "Env \<Rightarrow> Config \<Rightarrow> Table \<Rightarrow> string" where
  \<open>structSource env cfg table =
     (let st = columnLoop env cfg table;
          columnsText =
            colBuffer st @
            (if isMastermindStructableRecorder cfg \<and>
                (isMastermindStructable cfg \<or> isMastermindStructableOnly cfg)
             then TAB # ''\<newline>structable.Recorder\<newline>''
             else [])
      in ''package '' @ packageName cfg @ ''\<newline>\<newline>'' @
         concat (importWrites cfg st) @
         ''type '' @ structName env cfg table @ '' struct {\<newline>'' @
         columnsText @ ''}'')\<close>

text \<open>
  The conditions the specification states the import rules with: some column is
  nullable, some column is temporal, recorder embedding is active.
\<close>

definition spec_any_nullable :: "Table \<Rightarrow> bool" where
  "spec_any_nullable table = (\<exists>column\<in>set (Columns table). IsNullable column = ''YES'')"

definition spec_any_temporal :: "Table \<Rightarrow> bool" where
  "spec_any_temporal table =
     (\<exists>column\<in>set (Columns table). DataType column \<in> set (spec_members TemporalFamily))"

definition spec_recorder_active :: "Config \<Rightarrow> bool" where
  "spec_recorder_active cfg =
     (isMastermindStructableRecorder cfg \<and>
      (isMastermindStructable cfg \<or> isMastermindStructableOnly cfg))"

section \<open>Writing the file\<close>

text \<open>
  The variable \<open>fileName\<close> and the argument of \<open>os.Create\<close>, written as in the
  source: \<open>tableName + ".go"\<close> and \<open>outputFilePath + fileName\<close>. No separator is
  written between the two; \<open>verifyOutputPath\<close>, which sets \<open>outputFilePath\<close> through
  \<open>filepath.Abs\<close>, is not modelled.
\<close>

definition outputFile :: "Env \<Rightarrow> Config \<Rightarrow> Table \<Rightarrow> string" where
  "outputFile env cfg table =
     (let fileName = structName env cfg table @ ''.go''
      in outputFilePath cfg @ fileName)"

text \<open>
  \<open>createStructOfTable\<close>: when \<open>os.Create\<close> fails the error is returned. The error of
  \<open>format.Source\<close> is discarded and its first result is written, which is nil (no
  bytes) when formatting failed. The function returns the error of \<open>os.Create\<close>,
  which is nil at that point.
\<close>

definition createStructOfTable ::
    "Env \<Rightarrow> Config \<Rightarrow> Table \<Rightarrow> FileSystem \<Rightarrow> error option \<times> FileSystem" where
  "createStructOfTable env cfg table fs =
     (let path = outputFile env cfg table
      in case osCreate env path of
           Some err \<Rightarrow> (Some err, fs)
         | None \<Rightarrow>
             (let formatedFile =
                    (case formatSource env (structSource env cfg table) of
                       Inl _ \<Rightarrow> []
                     | Inr formatted \<Rightarrow> formatted)
              in (None, fs(path \<mapsto> formatedFile))))"

section \<open>Schema reader and orchestrator\<close>

datatype Database = PostgreDatabase | MySQLDatabase

text \<open>The scope the queries are run for: the schema (Postgres) or the database name (MySQL).\<close>

definition scopeName :: "Config \<Rightarrow> Database \<Rightarrow> string" where
  "scopeName cfg db = (case db of PostgreDatabase \<Rightarrow> schema cfg | MySQLDatabase \<Rightarrow> dbName cfg)"

definition GetTables :: "Env \<Rightarrow> Config \<Rightarrow> Database \<Rightarrow> error option \<times> Table list" where
  "GetTables env cfg db =
     (case dbSelectTables env (scopeName cfg db) of
        Inl err \<Rightarrow> (Some err, [])
      | Inr names \<Rightarrow> (None, map (\<lambda>name. \<lparr>TableName = name, Columns = []\<rparr>) names))"

definition PrepareGetColumnsOfTableStmt :: "Env \<Rightarrow> error option" where
  "PrepareGetColumnsOfTableStmt env = dbPreparex env"

text \<open>
  \<open>GetColumnsOfTable\<close>, in both variants, calls \<open>Select\<close> on the prepared statement
  without assigning its result: the rows found are appended to \<open>table.Columns\<close>, and
  the named result \<open>err\<close> is returned as it was initialised, nil.
\<close>

definition GetColumnsOfTable ::
    "Env \<Rightarrow> Config \<Rightarrow> Database \<Rightarrow> Table \<Rightarrow> error option \<times> Table" where
  "GetColumnsOfTable env cfg db table =
     (let err = None;
          table' =
            (case stmtSelect env (TableName table) (scopeName cfg db) of
               Inl _ \<Rightarrow> table
             | Inr rows \<Rightarrow> table\<lparr>Columns := Columns table @ rows\<rparr>)
      in (err, table'))"

text \<open>The loop of \<open>run\<close> over the tables, and \<open>run\<close> itself.\<close>

fun processTables ::
    "Env \<Rightarrow> Config \<Rightarrow> Database \<Rightarrow> Table list \<Rightarrow> FileSystem \<Rightarrow> error option \<times> FileSystem" where
  "processTables env cfg db [] fs = (None, fs)"
| "processTables env cfg db (table # tables) fs =
     (case GetColumnsOfTable env cfg db table of
        (Some err, table') \<Rightarrow> (Some err, fs)
      | (None, table') \<Rightarrow>
          (case createStructOfTable env cfg table' fs of
             (Some err, fs') \<Rightarrow> (Some err, fs')
           | (None, fs') \<Rightarrow> processTables env cfg db tables fs'))"

definition run :: "Env \<Rightarrow> Config \<Rightarrow> Database \<Rightarrow> FileSystem \<Rightarrow> error option \<times> FileSystem" where
  "run env cfg db fs =
     (case GetTables env cfg db of
        (Some err, tables) \<Rightarrow> (Some err, fs)
      | (None, tables) \<Rightarrow>
          (case PrepareGetColumnsOfTableStmt env of
             Some err \<Rightarrow> (Some err, fs)
           | None \<Rightarrow> processTables env cfg db tables fs))"

section \<open>Connecting\<close>

definition dbTypeToDriverMap :: "string \<Rightarrow> string" where
  "dbTypeToDriverMap key =
     (if key = ''pg'' then ''postgres'' else if key = ''mysql'' then ''mysql'' else [])"

definition prepareDataSourceName :: "Config \<Rightarrow> string" where
  "prepareDataSourceName cfg =
     (if dbType cfg = ''mysql''
      then user cfg @ '':'' @ pswd cfg @ ''@tcp('' @ host cfg @ '':'' @ port cfg @ '')/'' @
           dbName cfg
      else ''host='' @ host cfg @ '' port='' @ port cfg @ '' user='' @ user cfg @
           '' dbname='' @ dbName cfg @ '' password='' @ pswd cfg @ '' sslmode=disable'')"

text \<open>
  \<open>connect\<close>: when \<open>sqlx.Connect\<close> fails, its error is dropped and a new error is made
  from the configuration; otherwise the result of \<open>db.Ping\<close> is returned.
\<close>

definition connect :: "Env \<Rightarrow> Config \<Rightarrow> error option" where
  "connect env cfg =
     (case sqlxConnect env (dbTypeToDriverMap (dbType cfg)) (prepareDataSourceName cfg) of
        Some err \<Rightarrow>
          (let usingPswd = (if pswd cfg \<noteq> [] then ''yes'' else ''no'')
           in Some (Error
                (''Connection to Database (type='' @ fmtQuote env (dbType cfg) @
                 '', user='' @ fmtQuote env (user cfg) @
                 '', database='' @ fmtQuote env (dbName cfg) @
                 '', host='' @ [CHR 0x27] @ host cfg @ '':'' @ port cfg @ [CHR 0x27] @
                 '' (using password: '' @ usingPswd @ '') failed!'')))
      | None \<Rightarrow> dbPing env)"

section \<open>Example inputs\<close>

text \<open>
  The defaults of the command-line flags, with the port and the output path filled in as
  \<open>handleCmdArgs\<close> leaves them for a Postgres database and an output directory
  \<open>/out\<close>.
\<close>

definition exampleConfig :: Config where
  "exampleConfig =
     \<lparr>verbose = False, dbType = ''pg'', user = ''postgres'', pswd = [],
      dbName = ''postgres'', schema = ''public'', host = ''127.0.0.1'', port = ''5432'',
      outputFilePath = ''/out'', outputFormat = ''c'', packageName = ''dto'',
      prefix = [], suffix = [],
      isMastermindStructable = False, isMastermindStructableOnly = False,
      isMastermindStructableRecorder = False\<rparr>"

text \<open>A column as the Postgres query yields it: no default value, no key and extra text.\<close>

definition exampleColumn :: "int \<Rightarrow> string \<Rightarrow> string \<Rightarrow> string \<Rightarrow> Column" where
  "exampleColumn position name dataType nullable =
     \<lparr>OrdinalPosition = position, ColumnName = name, DataType = dataType,
      ColumnDefault = \<lparr>String_val = [], String_valid = False\<rparr>,
      IsNullable = nullable,
      CharacterMaximumLength = \<lparr>Int64_val = 0, Int64_valid = False\<rparr>,
      NumericPrecision = \<lparr>Int64_val = 0, Int64_valid = False\<rparr>,
      ColumnKey = [], Extra = []\<rparr>"

text \<open>
  Two tables with their columns loaded: one with a nullable temporal column, one with a
  single integer column that is not nullable.
\<close>

definition exampleTable :: Table where
  "exampleTable =
     \<lparr>TableName = ''user'',
      Columns = [exampleColumn 1 ''id'' ''integer'' ''NO'',
                 exampleColumn 2 ''created_at'' ''timestamp'' ''YES'']\<rparr>"

definition plainTable :: Table where
  "plainTable = \<lparr>TableName = ''tag'', Columns = [exampleColumn 1 ''id'' ''integer'' ''NO'']\<rparr>"

text \<open>The table of the end-to-end example of the specification.\<close>

definition orderItemsTable :: Table where
  "orderItemsTable =
     \<lparr>TableName = ''order_items'',
      Columns =
        [(exampleColumn 1 ''id'' ''integer'' ''NO'')
           \<lparr>ColumnDefault := \<lparr>String_val = ''nextval('order_items_id_seq'::regclass)'',
                               String_valid = True\<rparr>\<rparr>,
         exampleColumn 2 ''order_id'' ''integer'' ''NO'',
         exampleColumn 3 ''note'' ''text'' ''YES'']\<rparr>"

text \<open>A table with a column whose name starts with a digit.\<close>

definition oddTable :: Table where
  "oddTable = \<lparr>TableName = ''login'', Columns = [exampleColumn 1 ''2fa_code'' ''integer'' ''NO'']\<rparr>"

text \<open>
  A serial column as Postgres reports it, and an auto-increment primary key as MySQL
  reports it.
\<close>

definition serialColumn :: Column where
  "serialColumn =
     (exampleColumn 1 ''id'' ''integer'' ''NO'')
       \<lparr>ColumnDefault := \<lparr>String_val = ''nextval('user_id_seq'::regclass)'',
                           String_valid = True\<rparr>\<rparr>"

definition autoIncrementColumn :: Column where
  "autoIncrementColumn =
     (exampleColumn 1 ''id'' ''int'' ''NO'')\<lparr>ColumnKey := ''PRI'', Extra := ''auto_increment''\<rparr>"

text \<open>
  An environment in which everything succeeds: the formatter returns the text as it is,
  the database has the one table \<open>user\<close> with the columns \<open>id\<close> and \<open>created_at\<close>.
  The examples format ASCII names only, so \<open>unicodeTitle\<close> and \<open>unicodeToLower\<close>
  are never applied in them; the identity fills their place here and is not meant as
  a description of the two Go functions.
\<close>

definition exampleEnv :: Env where
  \<open>exampleEnv =
     \<lparr>formatSource = (\<lambda>src. Inr src),
      osCreate = (\<lambda>path. None),
      sqlxConnect = (\<lambda>driver dataSource. None),
      dbPing = None,
      dbSelectTables = (\<lambda>scope. Inr [''user'']),
      dbPreparex = None,
      stmtSelect = (\<lambda>tableName scope.
         Inr [exampleColumn 1 ''id'' ''integer'' ''NO'',
              exampleColumn 2 ''created_at'' ''timestamp'' ''YES'']),
      fmtQuote = (\<lambda>s. ''"'' @ s @ ''"''),
      unicodeTitle = (\<lambda>s. s),
      unicodeToLower = (\<lambda>s. s)\<rparr>\<close>

text \<open>
  Environments in which one step fails: formatting the source text, the column query,
  creating a file, connecting.
\<close>

definition formatFailsEnv :: Env where
  "formatFailsEnv = exampleEnv\<lparr>formatSource := (\<lambda>src. Inl (Error ''expected identifier''))\<rparr>"

definition queryFailsEnv :: Env where
  "queryFailsEnv = exampleEnv\<lparr>stmtSelect := (\<lambda>tableName scope. Inl (Error ''query failed''))\<rparr>"


definition connectFailsEnv :: Env where
  "connectFailsEnv =
     exampleEnv\<lparr>sqlxConnect := (\<lambda>driver dataSource. Some (Error ''connection refused''))\<rparr>"

section \<open>Properties of the type mapper\<close>

lemma spec_family_of_cases:
  "spec_family_of t =
     (if t \<in> set (spec_members IntegerFamily) then Some IntegerFamily
      else if t \<in> set (spec_members FloatFamily) then Some FloatFamily
      else if t \<in> set (spec_members TextFamily) then Some TextFamily
      else if t \<in> set (spec_members TemporalFamily) then Some TemporalFamily
      else if t \<in> set (spec_members BooleanFamily) then Some BooleanFamily
      else None)"
  unfolding spec_family_of_def by (simp only: find.simps)

lemma temporal_members:
  "set [''time'', ''timestamp'', ''time with time zone'', ''timestamp with time zone'',
        ''time without time zone'', ''timestamp without time zone'', ''date'', ''datetime'',
        ''year''] = set (spec_members TemporalFamily)"
  by (simp only: spec_members.simps list.set insert_commute)

lemma mapDbColumnTypeToGoType_families:
  "mapDbColumnTypeToGoType t n =
     (if t \<in> set (spec_members IntegerFamily)
      then (if n = ''YES'' then ''sql.NullInt64'' else ''int'', False)
      else if t \<in> set (spec_members FloatFamily)
      then (if n = ''YES'' then ''sql.NullFloat64'' else ''float64'', False)
      else if t \<in> set (spec_members TextFamily)
      then (if n = ''YES'' then ''sql.NullString'' else ''string'', False)
      else if t \<in> set (spec_members TemporalFamily)
      then (if n = ''YES'' then ''pq.NullTime'' else ''time.Time'', True)
      else if t \<in> set (spec_members BooleanFamily)
      then (if n = ''YES'' then ''sql.NullBool'' else ''bool'', False)
      else (''sql.NullString'', False))"
  unfolding mapDbColumnTypeToGoType_def temporal_members
  by (simp only: spec_members.simps)

text \<open>
  Claim C1. For every data type text and nullability text, \<open>mapDbColumnTypeToGoType\<close>
  returns what the specification's table gives, the column counting as nullable when
  its nullability text is \<open>"YES"\<close>: the plain type of the family of the data type, or
  the wrapper type of that family for a nullable column, with the temporal flag set for
  the temporal family only; a data type of no family gets \<open>sql.NullString\<close> and the
  temporal flag unset.
\<close>

theorem C1_type_mapper_follows_table:
  "mapDbColumnTypeToGoType dbDataType nullableText =
     spec_type_table dbDataType (nullableText = ''YES'')"
  unfolding mapDbColumnTypeToGoType_families spec_type_table_def spec_family_of_cases
  by (simp del: spec_members.simps)

theorem C1_type_mapper_follows_table_witness:
  "mapDbColumnTypeToGoType ''bigint'' ''YES'' = (''sql.NullInt64'', False) \<and>
   mapDbColumnTypeToGoType ''double precision'' ''NO'' = (''float64'', False) \<and>
   mapDbColumnTypeToGoType ''varchar'' ''YES'' = (''sql.NullString'', False) \<and>
   mapDbColumnTypeToGoType ''timestamp with time zone'' ''YES'' = (''pq.NullTime'', True) \<and>
   mapDbColumnTypeToGoType ''date'' ''NO'' = (''time.Time'', True) \<and>
   mapDbColumnTypeToGoType ''boolean'' ''NO'' = (''bool'', False) \<and>
   mapDbColumnTypeToGoType ''json'' ''NO'' = (''sql.NullString'', False)"
  using C1_type_mapper_follows_table [of "''bigint''" "''YES''"]
    C1_type_mapper_follows_table [of "''double precision''" "''NO''"]
    C1_type_mapper_follows_table [of "''varchar''" "''YES''"]
    C1_type_mapper_follows_table [of "''timestamp with time zone''" "''YES''"]
    C1_type_mapper_follows_table [of "''date''" "''NO''"]
    C1_type_mapper_follows_table [of "''boolean''" "''NO''"]
    C1_type_mapper_follows_table [of "''json''" "''NO''"]
  by (simp add: spec_type_table_def spec_family_of_cases)

section \<open>Properties of the string functions\<close>

lemma of_char_toTitle:
  assumes "isLowerAscii r"
  shows "(of_char (toTitle r) :: nat) = of_char r - 32"
proof -
  define n where "n = (of_char r :: nat)"
  have "n \<le> 122" using assms by (simp add: isLowerAscii_def n_def)
  then have "(n - 32) mod 256 = n - 32" by simp
  then show ?thesis using assms by (simp add: toTitle_def n_def)
qed

lemma of_char_toLower:
  assumes "isUpperAscii r"
  shows "(of_char (toLower r) :: nat) = of_char r + 32"
proof -
  define n where "n = (of_char r :: nat)"
  have "n \<le> 90" using assms by (simp add: isUpperAscii_def n_def)
  then have "(n + 32) mod 256 = n + 32" by simp
  then show ?thesis using assms by (simp add: toLower_def n_def)
qed

lemma toTitle_not_lower: "\<not> isLowerAscii r \<Longrightarrow> toTitle r = r"
  by (simp add: toTitle_def)

lemma toLower_not_upper: "\<not> isUpperAscii r \<Longrightarrow> toLower r = r"
  by (simp add: toLower_def)

lemma isUpper_toTitle:
  assumes "isLowerAscii r"
  shows "isUpperAscii (toTitle r)"
proof -
  define n where "n = (of_char r :: nat)"
  have "97 \<le> n \<and> n \<le> 122" using assms by (simp add: isLowerAscii_def n_def)
  then have "65 \<le> n - 32 \<and> n - 32 \<le> 90" by linarith
  then show ?thesis using of_char_toTitle [OF assms] by (simp add: isUpperAscii_def n_def)
qed

lemma isLower_toLower: "isUpperAscii r \<Longrightarrow> isLowerAscii (toLower r)"
  using of_char_toLower [of r] by (simp add: isUpperAscii_def isLowerAscii_def)

lemma lower_not_upper: "isLowerAscii r \<Longrightarrow> \<not> isUpperAscii r"
  by (simp add: isUpperAscii_def isLowerAscii_def)

lemma toLower_toTitle: "toLower (toTitle r) = toLower r"
proof (cases "isLowerAscii r")
  case True
  then have up: "isUpperAscii (toTitle r)" by (rule isUpper_toTitle)
  have "(of_char (toLower (toTitle r)) :: nat) = of_char r"
    using of_char_toLower [OF up] of_char_toTitle [OF True] True
    by (simp add: isLowerAscii_def)
  then have "toLower (toTitle r) = r" by simp
  moreover have "toLower r = r" using True by (simp add: toLower_not_upper lower_not_upper)
  ultimately show ?thesis by simp
next
  case False
  then show ?thesis by (simp add: toTitle_not_lower)
qed

lemma toTitle_idem: "toTitle (toTitle r) = toTitle r"
proof (cases "isLowerAscii r")
  case True
  then have "\<not> isLowerAscii (toTitle r)" using isUpper_toTitle lower_not_upper by blast
  then show ?thesis by (simp add: toTitle_not_lower)
next
  case False
  then show ?thesis by (simp add: toTitle_not_lower)
qed

lemma isSeparator_toTitle: "isSeparator (toTitle r) = isSeparator r"
proof (cases "isLowerAscii r")
  case True
  then have up: "isUpperAscii (toTitle r)" by (rule isUpper_toTitle)
  have "\<not> isSeparator r" using True by (simp add: isSeparator_def isLowerAscii_def)
  moreover have "\<not> isSeparator (toTitle r)" using up by (simp add: isSeparator_def isUpperAscii_def)
  ultimately show ?thesis by simp
next
  case False
  then show ?thesis by (simp add: toTitle_not_lower)
qed

lemma toTitle_underscore: "toTitle r = CHR ''_'' \<longleftrightarrow> r = CHR ''_''"
proof (cases "isLowerAscii r")
  case True
  then have "isUpperAscii (toTitle r)" by (rule isUpper_toTitle)
  then have "toTitle r \<noteq> CHR ''_''" by (auto simp add: isUpperAscii_def)
  moreover have "r \<noteq> CHR ''_''" using True by (auto simp add: isLowerAscii_def)
  ultimately show ?thesis by simp
next
  case False
  then show ?thesis by (simp add: toTitle_not_lower)
qed

lemma toLower_underscore: "toLower r = CHR ''_'' \<longleftrightarrow> r = CHR ''_''"
proof (cases "isUpperAscii r")
  case True
  then have "isLowerAscii (toLower r)" by (rule isLower_toLower)
  then have "toLower r \<noteq> CHR ''_''" by (auto simp add: isLowerAscii_def)
  moreover have "r \<noteq> CHR ''_''" using True by (auto simp add: isUpperAscii_def)
  ultimately show ?thesis by simp
next
  case False
  then show ?thesis by (simp add: toLower_not_upper)
qed

lemma isSeparator_space: "isSeparator (CHR '' '')"
  by (simp add: isSeparator_def isDigitAscii_def isLowerAscii_def isUpperAscii_def)

lemma toTitle_underscore_const: "toTitle (CHR ''_'') = CHR ''_''"
  by (simp add: toTitle_underscore)

lemma toLower_underscore_const: "toLower (CHR ''_'') = CHR ''_''"
  by (simp add: toLower_underscore)

lemma underscore_toTitle: "CHR ''_'' = toTitle r \<longleftrightarrow> r = CHR ''_''"
  using toTitle_underscore [of r] by auto

lemma underscore_toLower: "CHR ''_'' = toLower r \<longleftrightarrow> r = CHR ''_''"
  using toLower_underscore [of r] by auto

lemma ToLowerAscii_Cons: "ToLowerAscii (r # rs) = toLower r # ToLowerAscii rs"
  by (simp add: ToLowerAscii_def)

lemma Split_not_Nil: "Split s sep \<noteq> []"
  by (induction s) (auto split: list.splits)

lemma length_Split_Cons:
  "length (Split (r # rs) sep) =
     (if r = sep then Suc (length (Split rs sep)) else length (Split rs sep))"
  using Split_not_Nil [of rs sep] by (cases "Split rs sep") auto

lemma length_Split_one: "length (Split s sep) = Suc 0 \<longleftrightarrow> sep \<notin> set s"
proof (induction s)
  case Nil
  show ?case by simp
next
  case (Cons r rs)
  have "0 < length (Split rs sep)" using Split_not_Nil [of rs sep] by simp
  with Cons show ?case by (simp only: length_Split_Cons) auto
qed

lemma Split_pieces: "piece \<in> set (Split s sep) \<Longrightarrow> sep \<notin> set piece \<and> set piece \<subseteq> set s"
proof (induction s arbitrary: piece)
  case Nil
  then show ?case by simp
next
  case (Cons r rs)
  obtain p ps where sp: "Split rs sep = p # ps"
    using Split_not_Nil [of rs sep] by (cases "Split rs sep") auto
  show ?case
  proof (cases "r = sep")
    case True
    with Cons show ?thesis by auto
  next
    case False
    with Cons.prems sp have "piece = r # p \<or> piece \<in> set ps" by simp
    moreover have "sep \<notin> set p \<and> set p \<subseteq> set rs" using Cons.IH [of p] sp by simp
    moreover have "piece \<in> set ps \<Longrightarrow> sep \<notin> set piece \<and> set piece \<subseteq> set rs"
      using Cons.IH [of piece] sp by simp
    ultimately show ?thesis using False by auto
  qed
qed

lemma foldl_append_concat:
  "foldl (\<lambda>cc part. cc @ f part) acc parts = acc @ concat (map f parts)"
  by (induction parts arbitrary: acc) simp_all

lemma underscore_TitleFrom: "CHR ''_'' \<in> set (TitleFrom prev s) \<longleftrightarrow> CHR ''_'' \<in> set s"
  by (induction s arbitrary: prev)
     (auto simp add: toTitle_underscore underscore_toTitle toTitle_underscore_const)

lemma underscore_ToLowerAscii: "CHR ''_'' \<in> set (ToLowerAscii s) \<longleftrightarrow> CHR ''_'' \<in> set s"
  by (induction s)
     (auto simp add: ToLowerAscii_def toLower_underscore underscore_toLower
        toLower_underscore_const)

lemma TitleFrom_idem:
  "isSeparator p = isSeparator q \<Longrightarrow> TitleFrom p (TitleFrom q s) = TitleFrom q s"
proof (induction s arbitrary: p q)
  case Nil
  show ?case by simp
next
  case (Cons r rs)
  let ?r' = "if isSeparator q then toTitle r else r"
  have "isSeparator ?r' = isSeparator r" by (simp add: isSeparator_toTitle)
  then have "TitleFrom ?r' (TitleFrom r rs) = TitleFrom r rs" by (rule Cons.IH)
  with Cons.prems show ?case by (simp add: toTitle_idem)
qed

lemma TitleAscii_idem: "TitleAscii (TitleAscii s) = TitleAscii s"
  by (simp add: TitleAscii_def TitleFrom_idem)

lemma ToLowerAscii_Split_TitleFrom:
  "map ToLowerAscii (Split (TitleFrom prev s) (CHR ''_'')) =
   map ToLowerAscii (Split s (CHR ''_''))"
proof (induction s arbitrary: prev)
  case Nil
  show ?case by simp
next
  case (Cons r rs)
  let ?r' = "if isSeparator prev then toTitle r else r"
  obtain p ps where sp: "Split rs (CHR ''_'') = p # ps"
    using Split_not_Nil [of rs] by (cases "Split rs (CHR ''_'')") auto
  obtain p' ps' where sp': "Split (TitleFrom r rs) (CHR ''_'') = p' # ps'"
    using Split_not_Nil [of "TitleFrom r rs"] by (cases "Split (TitleFrom r rs) (CHR ''_'')") auto
  have ih: "ToLowerAscii p' = ToLowerAscii p \<and> map ToLowerAscii ps' = map ToLowerAscii ps"
    using Cons.IH [of r] sp sp' by simp
  have us: "?r' = CHR ''_'' \<longleftrightarrow> r = CHR ''_''" by (simp add: toTitle_underscore)
  have lo: "toLower ?r' = toLower r" by (simp add: toLower_toTitle)
  show ?case
  proof (cases "r = CHR ''_''")
    case True
    then have "?r' = CHR ''_''" using us by simp
    then show ?thesis using True sp sp' ih by (simp add: toTitle_underscore_const)
  next
    case False
    then have "?r' \<noteq> CHR ''_''" using us by simp
    then show ?thesis using False sp sp' ih lo by (simp add: ToLowerAscii_Cons)
  qed
qed

lemma camel_of_TitleAscii:
  "concat (map (\<lambda>part. TitleAscii (ToLowerAscii part)) (Split (TitleAscii s) (CHR ''_''))) =
   concat (map (\<lambda>part. TitleAscii (ToLowerAscii part)) (Split s (CHR ''_'')))"
proof -
  have "map (\<lambda>part. TitleAscii (ToLowerAscii part)) (Split (TitleAscii s) (CHR ''_'')) =
        map TitleAscii (map ToLowerAscii (Split (TitleAscii s) (CHR ''_'')))" by simp
  also have "\<dots> = map TitleAscii (map ToLowerAscii (Split s (CHR ''_'')))"
    by (simp only: TitleAscii_def ToLowerAscii_Split_TitleFrom)
  also have "\<dots> = map (\<lambda>part. TitleAscii (ToLowerAscii part)) (Split s (CHR ''_''))" by simp
  finally show ?thesis by simp
qed

lemma no_underscore_camel:
  "CHR ''_'' \<notin>
     set (concat (map (\<lambda>part. TitleAscii (ToLowerAscii part)) (Split s (CHR ''_''))))"
  using Split_pieces [of _ s "CHR ''_''"]
  by (auto simp add: TitleAscii_def underscore_TitleFrom underscore_ToLowerAscii)

text \<open>Texts without separators.\<close>

lemma TitleFrom_no_separator:
  "\<not> isSeparator prev \<Longrightarrow> \<forall>r\<in>set s. \<not> isSeparator r \<Longrightarrow> TitleFrom prev s = s"
  by (induction s arbitrary: prev) simp_all

lemma TitleAscii_no_separator:
  "\<forall>r\<in>set s. \<not> isSeparator r \<Longrightarrow> TitleAscii s = spec_capitalize_first s"
  by (cases s) (simp_all add: TitleAscii_def spec_capitalize_first_def isSeparator_space
      TitleFrom_no_separator)

lemma isSeparator_toLower: "isSeparator (toLower r) = isSeparator r"
proof (cases "isUpperAscii r")
  case True
  then have "isLowerAscii (toLower r)" by (rule isLower_toLower)
  then have "\<not> isSeparator (toLower r)" by (simp add: isSeparator_def)
  moreover have "\<not> isSeparator r" using True by (simp add: isSeparator_def)
  ultimately show ?thesis by simp
next
  case False
  then show ?thesis by (simp add: toLower_not_upper)
qed

lemma TitleAscii_ToLowerAscii_no_separator:
  "\<forall>r\<in>set s. \<not> isSeparator r \<Longrightarrow>
   TitleAscii (ToLowerAscii s) = spec_capitalize_first (ToLowerAscii s)"
  by (rule TitleAscii_no_separator) (simp add: ToLowerAscii_def isSeparator_toLower)

text \<open>Texts of ASCII characters stay texts of ASCII characters.\<close>

lemma isAscii_toTitle: "isAscii r \<Longrightarrow> isAscii (toTitle r)"
proof (cases "isLowerAscii r")
  case True
  assume "isAscii r"
  then show ?thesis using of_char_toTitle [OF True] by (simp add: isAscii_def)
next
  case False
  assume "isAscii r"
  with False show ?thesis by (simp add: toTitle_not_lower)
qed

lemma isAscii_toLower: "isAscii r \<Longrightarrow> isAscii (toLower r)"
proof (cases "isUpperAscii r")
  case True
  then have "isLowerAscii (toLower r)" by (rule isLower_toLower)
  then show ?thesis by (simp add: isAscii_def isLowerAscii_def)
next
  case False
  assume "isAscii r"
  with False show ?thesis by (simp add: toLower_not_upper)
qed

lemma ascii_TitleFrom: "list_all isAscii s \<Longrightarrow> list_all isAscii (TitleFrom prev s)"
  by (induction s arbitrary: prev) (simp_all add: isAscii_toTitle)

lemma ascii_TitleAscii: "list_all isAscii s \<Longrightarrow> list_all isAscii (TitleAscii s)"
  by (simp add: TitleAscii_def ascii_TitleFrom)

lemma ascii_ToLowerAscii: "list_all isAscii s \<Longrightarrow> list_all isAscii (ToLowerAscii s)"
  by (induction s) (simp_all add: ToLowerAscii_def isAscii_toLower)

lemma ascii_pieces:
  "list_all isAscii s \<Longrightarrow> piece \<in> set (Split s sep) \<Longrightarrow> list_all isAscii piece"
  using Split_pieces [of piece s sep] by (auto simp add: list_all_iff)

lemma Title_ascii: "list_all isAscii s \<Longrightarrow> Title env s = TitleAscii s"
  by (simp add: Title_def)

lemma ToLower_ascii: "list_all isAscii s \<Longrightarrow> ToLower env s = ToLowerAscii s"
  by (simp add: ToLower_def)

lemma Title_ToLower_ascii:
  "list_all isAscii s \<Longrightarrow> Title env (ToLower env s) = TitleAscii (ToLowerAscii s)"
  by (simp add: ToLower_ascii Title_ascii ascii_ToLowerAscii)

lemma pieces_ascii:
  "list_all isAscii s \<Longrightarrow>
   map (\<lambda>part. Title env (ToLower env part)) (Split s sep) =
   map (\<lambda>part. TitleAscii (ToLowerAscii part)) (Split s sep)"
  by (simp add: Title_ToLower_ascii ascii_pieces)

section \<open>Properties of the identifier formatter\<close>

lemma camelCaseString_cases:
  "camelCaseString env s =
     (if CHR ''_'' \<in> set s
      then concat (map (\<lambda>part. Title env (ToLower env part)) (Split s (CHR ''_'')))
      else Title env s)"
  by (simp add: camelCaseString_def Let_def length_Split_one foldl_append_concat)

lemma formatName_title: "outputFormat cfg \<noteq> ''c'' \<Longrightarrow> formatName env cfg name = Title env name"
  by (simp add: formatName_def Let_def)

lemma formatName_camel_ascii:
  assumes "outputFormat cfg = ''c''" and "list_all isAscii name"
  shows "formatName env cfg name =
     (if CHR ''_'' \<in> set name
      then concat (map (\<lambda>part. TitleAscii (ToLowerAscii part)) (Split name (CHR ''_'')))
      else TitleAscii name)"
proof -
  have titled: "list_all isAscii (TitleAscii name)" using assms(2) by (rule ascii_TitleAscii)
  have "formatName env cfg name = camelCaseString env (TitleAscii name)"
    using assms by (simp add: formatName_def Let_def Title_ascii)
  also have "\<dots> =
     (if CHR ''_'' \<in> set (TitleAscii name)
      then concat (map (\<lambda>part. TitleAscii (ToLowerAscii part))
                     (Split (TitleAscii name) (CHR ''_'')))
      else TitleAscii (TitleAscii name))"
    by (simp only: camelCaseString_cases pieces_ascii [OF titled] Title_ascii [OF titled])
  also have "\<dots> =
     (if CHR ''_'' \<in> set name
      then concat (map (\<lambda>part. TitleAscii (ToLowerAscii part)) (Split name (CHR ''_'')))
      else TitleAscii name)"
    by (simp only: camel_of_TitleAscii TitleAscii_idem)
       (simp add: TitleAscii_def underscore_TitleFrom)
  finally show ?thesis .
qed

lemma formatName_camel:
  assumes "outputFormat cfg = ''c''" and "list_all isAscii name"
  shows "formatName env cfg name =
     (if CHR ''_'' \<in> set name
      then concat (map (\<lambda>part. Title env (ToLower env part)) (Split name (CHR ''_'')))
      else Title env name)"
  by (simp only: formatName_camel_ascii [OF assms] pieces_ascii [OF assms(2)]
      Title_ascii [OF assms(2)])

lemma title_user_id: "TitleAscii ''user_id'' = ''User_id''"
  by code_simp

lemma camel_user_id:
  "(if CHR ''_'' \<in> set ''user_id''
    then concat (map (\<lambda>part. TitleAscii (ToLowerAscii part)) (Split ''user_id'' (CHR ''_'')))
    else TitleAscii ''user_id'') = ''UserId''"
  by code_simp

lemma camel_id:
  "(if CHR ''_'' \<in> set ''id''
    then concat (map (\<lambda>part. TitleAscii (ToLowerAscii part)) (Split ''id'' (CHR ''_'')))
    else TitleAscii ''id'') = ''Id''"
  by code_simp

lemma ascii_user_id: "list_all isAscii ''user_id''"
  by code_simp

lemma ascii_id: "list_all isAscii ''id''"
  by code_simp

text \<open>
  Claim C5, amended. With the output format \<open>"o"\<close> a name is formatted by
  \<open>strings.Title\<close> alone. For a name of ASCII characters without separator, that is
  of ASCII letters, digits and underscores, this capitalizes the first letter of the
  whole name and changes nothing else, underscores and case included; in particular
  \<open>user_id\<close> becomes \<open>User_id\<close>. (In a name of ASCII characters with separators
  \<open>strings.Title\<close> capitalizes the letter after every separator too; what it does to
  a name with other characters is left to the Unicode tables.)
\<close>

theorem C5_title_mode:
  assumes "outputFormat cfg = ''o''"
  shows "formatName env cfg name = Title env name \<and>
         (list_all isAscii name \<longrightarrow> formatName env cfg name = TitleAscii name) \<and>
         (list_all isAscii name \<and> (\<forall>r\<in>set name. \<not> isSeparator r) \<longrightarrow>
            formatName env cfg name = spec_capitalize_first name) \<and>
         formatName env cfg ''user_id'' = ''User_id''"
proof -
  have title: "formatName env cfg n = Title env n" for n
    using assms by (simp add: formatName_title)
  have ascii: "list_all isAscii name \<longrightarrow> formatName env cfg name = TitleAscii name"
    by (simp add: title Title_ascii)
  have plain: "list_all isAscii name \<and> (\<forall>r\<in>set name. \<not> isSeparator r) \<longrightarrow>
      formatName env cfg name = spec_capitalize_first name"
    by (simp add: title Title_ascii TitleAscii_no_separator)
  have example: "formatName env cfg ''user_id'' = ''User_id''"
    by (simp only: title Title_ascii [OF ascii_user_id] title_user_id)
  from title [of name] ascii plain example show ?thesis by (intro conjI)
qed

theorem C5_title_mode_witness:
  "outputFormat (exampleConfig\<lparr>outputFormat := ''o''\<rparr>) = ''o'' \<and>
   list_all isAscii ''created_at'' \<and>
   list_all (\<lambda>r. \<not> isSeparator r) ''created_at'' \<and>
   formatName exampleEnv (exampleConfig\<lparr>outputFormat := ''o''\<rparr>) ''created_at'' = ''Created_at''"
proof -
  have mode: "outputFormat (exampleConfig\<lparr>outputFormat := ''o''\<rparr>) = ''o''" by simp
  have ascii: "list_all isAscii ''created_at''" by code_simp
  have chars: "list_all (\<lambda>r. \<not> isSeparator r) ''created_at''" by code_simp
  then have none: "\<forall>r\<in>set ''created_at''. \<not> isSeparator r" by (simp only: list_all_iff)
  have cap: "spec_capitalize_first ''created_at'' = ''Created_at''" by code_simp
  from C5_title_mode [OF mode, of exampleEnv "''created_at''"]
  have "list_all isAscii ''created_at'' \<and> (\<forall>r\<in>set ''created_at''. \<not> isSeparator r) \<longrightarrow>
          formatName exampleEnv (exampleConfig\<lparr>outputFormat := ''o''\<rparr>) ''created_at'' =
            spec_capitalize_first ''created_at''"
    by (elim conjE)
  with ascii none
  have "formatName exampleEnv (exampleConfig\<lparr>outputFormat := ''o''\<rparr>) ''created_at'' =
      spec_capitalize_first ''created_at''" by blast
  with mode ascii chars cap show ?thesis by (simp only: simp_thms)
qed

text \<open>
  The restriction to names without separator is needed: \<open>strings.Title\<close> capitalizes
  the letter after every separator, so in a name with a space more than the first letter
  changes.
\<close>

theorem C5_title_mode_counterexample:
  "formatName exampleEnv (exampleConfig\<lparr>outputFormat := ''o''\<rparr>) ''first name'' =
     ''First Name'' \<and>
   formatName exampleEnv (exampleConfig\<lparr>outputFormat := ''o''\<rparr>) ''first name'' \<noteq>
     spec_capitalize_first ''first name''"
  by code_simp

text \<open>
  Claim C6, amended. With the output format \<open>"c"\<close> the name, already passed through
  \<open>strings.Title\<close>, is split at its underscores; a single piece is passed through
  \<open>strings.Title\<close>, otherwise every piece is lower-cased and passed through
  \<open>strings.Title\<close> and the pieces are concatenated. For a name of ASCII characters
  this is the same as splitting the name itself, the result has no underscore, and a
  name without underscore is formatted as with the output format \<open>"o"\<close>; when such a
  name has no separator, that is when it consists of ASCII letters, digits and
  underscores, \<open>strings.Title\<close> capitalizes just the first letter of each lower-cased
  piece. In particular \<open>user_id\<close> becomes \<open>UserId\<close> and \<open>id\<close> becomes \<open>Id\<close>.
\<close>

theorem C6_camel_mode:
  assumes "outputFormat cfg = ''c''"
  shows "formatName env cfg name =
           (if CHR ''_'' \<in> set (Title env name)
            then concat (map (\<lambda>part. Title env (ToLower env part))
                           (Split (Title env name) (CHR ''_'')))
            else Title env (Title env name)) \<and>
         (list_all isAscii name \<longrightarrow>
            formatName env cfg name =
              (if CHR ''_'' \<in> set name
               then concat (map (\<lambda>part. Title env (ToLower env part)) (Split name (CHR ''_'')))
               else Title env name) \<and>
            CHR ''_'' \<notin> set (formatName env cfg name) \<and>
            ((\<forall>r\<in>set name. \<not> isSeparator r) \<longrightarrow>
               formatName env cfg name =
                 (if CHR ''_'' \<in> set name
                  then concat (map (\<lambda>part. spec_capitalize_first (ToLower env part))
                                 (Split name (CHR ''_'')))
                  else spec_capitalize_first name)) \<and>
            (CHR ''_'' \<notin> set name \<longrightarrow>
               formatName env cfg name = formatName env (cfg\<lparr>outputFormat := ''o''\<rparr>) name)) \<and>
         formatName env cfg ''user_id'' = ''UserId'' \<and>
         formatName env cfg ''id'' = ''Id''"
proof -
  note ascii = formatName_camel_ascii [OF assms, of _ env]
  have code: "formatName env cfg name =
      (if CHR ''_'' \<in> set (Title env name)
       then concat (map (\<lambda>part. Title env (ToLower env part))
                      (Split (Title env name) (CHR ''_'')))
       else Title env (Title env name))"
    using assms by (simp add: formatName_def Let_def camelCaseString_cases)
  have title: "formatName env (cfg\<lparr>outputFormat := ''o''\<rparr>) name = Title env name"
    by (simp add: formatName_title)
  have fine: "formatName env cfg name =
        (if CHR ''_'' \<in> set name
         then concat (map (\<lambda>part. Title env (ToLower env part)) (Split name (CHR ''_'')))
         else Title env name) \<and>
      CHR ''_'' \<notin> set (formatName env cfg name) \<and>
      ((\<forall>r\<in>set name. \<not> isSeparator r) \<longrightarrow>
         formatName env cfg name =
           (if CHR ''_'' \<in> set name
            then concat (map (\<lambda>part. spec_capitalize_first (ToLower env part))
                           (Split name (CHR ''_'')))
            else spec_capitalize_first name)) \<and>
      (CHR ''_'' \<notin> set name \<longrightarrow>
         formatName env cfg name = formatName env (cfg\<lparr>outputFormat := ''o''\<rparr>) name)"
    if chars: "list_all isAscii name"
  proof -
    have camel: "formatName env cfg name =
        (if CHR ''_'' \<in> set name
         then concat (map (\<lambda>part. Title env (ToLower env part)) (Split name (CHR ''_'')))
         else Title env name)"
      using assms chars by (rule formatName_camel)
    have none: "CHR ''_'' \<notin> set (formatName env cfg name)"
      using no_underscore_camel [of name]
      by (simp add: ascii [OF chars] TitleAscii_def underscore_TitleFrom)
    have plain: "formatName env cfg name =
        (if CHR ''_'' \<in> set name
         then concat (map (\<lambda>part. spec_capitalize_first (ToLower env part))
                        (Split name (CHR ''_'')))
         else spec_capitalize_first name)"
      if all: "\<forall>r\<in>set name. \<not> isSeparator r"
    proof -
      have "TitleAscii (ToLowerAscii part) = spec_capitalize_first (ToLower env part)"
        if "part \<in> set (Split name (CHR ''_''))" for part
      proof -
        have "list_all isAscii part" using chars that by (rule ascii_pieces)
        then have "ToLower env part = ToLowerAscii part" by (rule ToLower_ascii)
        moreover have "\<forall>r\<in>set part. \<not> isSeparator r"
          using Split_pieces [OF that] all by auto
        ultimately show ?thesis by (simp add: TitleAscii_ToLowerAscii_no_separator)
      qed
      then have parts: "map (\<lambda>part. TitleAscii (ToLowerAscii part)) (Split name (CHR ''_'')) =
          map (\<lambda>part. spec_capitalize_first (ToLower env part)) (Split name (CHR ''_''))"
        by simp
      show ?thesis using all by (simp only: ascii [OF chars] parts TitleAscii_no_separator)
    qed
    show ?thesis using none plain title camel by simp
  qed
  have ex1: "formatName env cfg ''user_id'' = ''UserId''"
    by (simp only: ascii [OF ascii_user_id] camel_user_id)
  have ex2: "formatName env cfg ''id'' = ''Id''"
    by (simp only: ascii [OF ascii_id] camel_id)
  from code fine ex1 ex2 show ?thesis by blast
qed

theorem C6_camel_mode_witness:
  "outputFormat exampleConfig = ''c'' \<and>
   list_all isAscii ''order_ITEM_id'' \<and>
   list_all (\<lambda>r. \<not> isSeparator r) ''order_ITEM_id'' \<and>
   CHR ''_'' \<in> set ''order_ITEM_id'' \<and>
   formatName exampleEnv exampleConfig ''order_ITEM_id'' = ''OrderItemId'' \<and>
   list_all isAscii ''userID'' \<and>
   CHR ''_'' \<notin> set ''userID'' \<and>
   formatName exampleEnv exampleConfig ''userID'' =
     formatName exampleEnv (exampleConfig\<lparr>outputFormat := ''o''\<rparr>) ''userID''"
proof -
  have mode: "outputFormat exampleConfig = ''c''" by (simp add: exampleConfig_def)
  have ascii: "list_all isAscii ''order_ITEM_id''" by code_simp
  have ascii': "list_all isAscii ''userID''" by code_simp
  have chars: "list_all (\<lambda>r. \<not> isSeparator r) ''order_ITEM_id''" by code_simp
  then have none: "\<forall>r\<in>set ''order_ITEM_id''. \<not> isSeparator r" by (simp only: list_all_iff)
  have parts: "concat (map (\<lambda>part. spec_capitalize_first (ToLower exampleEnv part))
                 (Split ''order_ITEM_id'' (CHR ''_''))) = ''OrderItemId''" by code_simp
  have us: "CHR ''_'' \<in> set ''order_ITEM_id''" by simp
  have no_us: "CHR ''_'' \<notin> set ''userID''" by simp
  note inst = C6_camel_mode [OF mode, of exampleEnv "''order_ITEM_id''"]
  note inst' = C6_camel_mode [OF mode, of exampleEnv "''userID''"]
  from inst [THEN conjunct2, THEN conjunct1] ascii
  have "(\<forall>r\<in>set ''order_ITEM_id''. \<not> isSeparator r) \<longrightarrow>
          formatName exampleEnv exampleConfig ''order_ITEM_id'' =
            (if CHR ''_'' \<in> set ''order_ITEM_id''
             then concat (map (\<lambda>part. spec_capitalize_first (ToLower exampleEnv part))
                            (Split ''order_ITEM_id'' (CHR ''_'')))
             else spec_capitalize_first ''order_ITEM_id'')"
    by blast
  with none have "formatName exampleEnv exampleConfig ''order_ITEM_id'' =
      (if CHR ''_'' \<in> set ''order_ITEM_id''
       then concat (map (\<lambda>part. spec_capitalize_first (ToLower exampleEnv part))
                      (Split ''order_ITEM_id'' (CHR ''_'')))
       else spec_capitalize_first ''order_ITEM_id'')" by (rule mp [rotated])
  with us parts
  have first: "formatName exampleEnv exampleConfig ''order_ITEM_id'' = ''OrderItemId''"
    by (simp only: if_True)
  from inst' [THEN conjunct2, THEN conjunct1] ascii'
  have "CHR ''_'' \<notin> set ''userID'' \<longrightarrow>
          formatName exampleEnv exampleConfig ''userID'' =
            formatName exampleEnv (exampleConfig\<lparr>outputFormat := ''o''\<rparr>) ''userID''"
    by blast
  with no_us have second: "formatName exampleEnv exampleConfig ''userID'' =
      formatName exampleEnv (exampleConfig\<lparr>outputFormat := ''o''\<rparr>) ''userID''"
    by (rule mp [rotated])
  from mode ascii chars us first ascii' no_us second show ?thesis by (intro conjI)
qed

text \<open>
  In a piece that holds a separator \<open>strings.Title\<close> capitalizes more than the first
  letter of the piece.
\<close>

theorem C6_camel_mode_counterexample:
  "formatName exampleEnv exampleConfig ''first name_x'' = ''First NameX'' \<and>
   concat (map (\<lambda>part. spec_capitalize_first (ToLower exampleEnv part))
     (Split ''first name_x'' (CHR ''_''))) = ''First nameX''"
  by code_simp

section \<open>Properties of \<open>strings.Contains\<close>\<close>

lemma HasPrefix_iff: "HasPrefix s pre \<longleftrightarrow> (\<exists>rest. s = pre @ rest)"
proof
  assume "HasPrefix s pre"
  then have "s = pre @ drop (length pre) s"
    by (metis HasPrefix_def append_take_drop_id)
  then show "\<exists>rest. s = pre @ rest" ..
next
  assume "\<exists>rest. s = pre @ rest"
  then show "HasPrefix s pre" by (auto simp add: HasPrefix_def)
qed

lemma Contains_iff: "Contains s substr \<longleftrightarrow> (\<exists>before after. s = before @ substr @ after)"
proof (induction s)
  case Nil
  show ?case by auto
next
  case (Cons r rs)
  show ?case
  proof
    assume "Contains (r # rs) substr"
    then consider "HasPrefix (r # rs) substr" | "Contains rs substr" by auto
    then show "\<exists>before after. r # rs = before @ substr @ after"
    proof cases
      case 1
      then obtain rest where "r # rs = substr @ rest" by (auto simp add: HasPrefix_iff)
      then have "r # rs = [] @ substr @ rest" by simp
      then show ?thesis by blast
    next
      case 2
      then obtain before after where "rs = before @ substr @ after" using Cons.IH by auto
      then have "r # rs = (r # before) @ substr @ after" by simp
      then show ?thesis by blast
    qed
  next
    assume "\<exists>before after. r # rs = before @ substr @ after"
    then obtain before after where eq: "r # rs = before @ substr @ after" by auto
    show "Contains (r # rs) substr"
    proof (cases before)
      case Nil
      with eq have "HasPrefix (r # rs) substr" by (auto simp add: HasPrefix_iff)
      then show ?thesis by simp
    next
      case (Cons b before')
      with eq have "rs = before' @ substr @ after" by simp
      then have "Contains rs substr" using Cons.IH by auto
      then show ?thesis by simp
    qed
  qed
qed

lemma Contains_middle: "Contains (before @ substr @ after) substr"
  by (auto simp add: Contains_iff)

section \<open>Properties of the struct emitter\<close>

lemma isNullable_columnStep:
  "isNullable (columnStep env cfg st column) = (isNullable st \<or> IsNullable column = ''YES'')"
  by (simp add: columnStep_def Let_def)

lemma temporal_not_earlier:
  assumes "t \<in> set (spec_members TemporalFamily)"
  shows "t \<notin> set (spec_members IntegerFamily)"
    and "t \<notin> set (spec_members FloatFamily)"
    and "t \<notin> set (spec_members TextFamily)"
  using assms by auto

lemma isTime_temporal:
  "snd (mapDbColumnTypeToGoType t n) = (t \<in> set (spec_members TemporalFamily))"
  unfolding mapDbColumnTypeToGoType_families
  using temporal_not_earlier [of t]
  by (simp del: spec_members.simps)

lemma timeIndicator_columnStep:
  "timeIndicator (columnStep env cfg st column) =
     (if DataType column \<in> set (spec_members TemporalFamily)
      then timeIndicator st + 1 else timeIndicator st)"
  by (simp add: columnStep_def Let_def isTime_temporal del: spec_members.simps)

lemma isNullable_foldl:
  "isNullable (foldl (columnStep env cfg) st columns) =
     (isNullable st \<or> (\<exists>column\<in>set columns. IsNullable column = ''YES''))"
  by (induction columns arbitrary: st) (auto simp add: isNullable_columnStep)

lemma timeIndicator_foldl:
  "timeIndicator (foldl (columnStep env cfg) st columns) =
     timeIndicator st +
       int (length (filter (\<lambda>column. DataType column \<in> set (spec_members TemporalFamily)) columns))"
  by (induction columns arbitrary: st)
     (simp_all add: timeIndicator_columnStep del: spec_members.simps)

lemma isNullable_columnLoop: "isNullable (columnLoop env cfg table) = spec_any_nullable table"
  by (simp add: columnLoop_def isNullable_foldl initialState_def spec_any_nullable_def)

lemma timeIndicator_columnLoop: "(timeIndicator (columnLoop env cfg table) > 0) = spec_any_temporal table"
proof -
  have "(0 < length (filter P xs)) = (\<exists>x\<in>set xs. P x)" for P :: "Column \<Rightarrow> bool" and xs
    by (simp add: filter_empty_conv)
  then show ?thesis
    by (simp add: columnLoop_def timeIndicator_foldl initialState_def spec_any_temporal_def
        del: spec_members.simps)
qed

text \<open>
  Claim C2, amended. For every table, with the import part taken as the list of texts
  written: whenever an import is required (some column is nullable, some column is
  temporal, or recorder embedding is active) the import block is written and holds, in
  this order, \<open>"database/sql"\<close> if some column is nullable, \<open>"github.com/lib/pq"\<close> if
  some column is nullable and some column is temporal or \<open>"time"\<close> if some column is
  temporal and none is nullable, and \<open>"github.com/Masterminds/structable"\<close> if recorder
  embedding is active; so the \<open>pq\<close> import replaces the \<open>time\<close> import and
  \<open>"database/sql"\<close> stays beside it. Each of the four imports is written exactly under
  its condition. A table with no nullable and no temporal column produces no import
  block when no annotation mode is enabled.
\<close>

theorem C2_import_block:
  \<open>let W = importWrites cfg (columnLoop env cfg table);
       N = spec_any_nullable table;
       T = spec_any_temporal table;
       R = spec_recorder_active cfg
   in (N \<or> T \<or> R \<longrightarrow>
         W = [''import (\<newline>''] @
             (if N then [TAB # ''"database/sql"\<newline>''] else []) @
             (if T then [if N then TAB # ''\<newline>"github.com/lib/pq"\<newline>''
                         else TAB # ''"time"\<newline>''] else []) @
             (if R then [TAB # ''\<newline>"github.com/Masterminds/structable"\<newline>''] else []) @
             ['')\<newline>\<newline>'']) \<and>
      (\<not> N \<and> \<not> T \<and> \<not> isMastermindStructable cfg \<and> \<not> isMastermindStructableOnly cfg \<longrightarrow>
         W = []) \<and>
      (TAB # ''"database/sql"\<newline>'' \<in> set W \<longleftrightarrow> N) \<and>
      (TAB # ''"time"\<newline>'' \<in> set W \<longleftrightarrow> T \<and> \<not> N) \<and>
      (TAB # ''\<newline>"github.com/lib/pq"\<newline>'' \<in> set W \<longleftrightarrow> N \<and> T) \<and>
      (TAB # ''\<newline>"github.com/Masterminds/structable"\<newline>'' \<in> set W \<longleftrightarrow> R)\<close>
  unfolding Let_def importWrites_def isNullable_columnLoop timeIndicator_columnLoop
    spec_recorder_active_def
  by auto


theorem C2_import_block_witness:
  \<open>spec_any_nullable exampleTable \<and> spec_any_temporal exampleTable \<and>
   importWrites exampleConfig (columnLoop exampleEnv exampleConfig exampleTable) =
     [''import (\<newline>'', TAB # ''"database/sql"\<newline>'',
      TAB # ''\<newline>"github.com/lib/pq"\<newline>'', '')\<newline>\<newline>''] \<and>
   \<not> spec_any_nullable plainTable \<and> \<not> spec_any_temporal plainTable \<and>
   \<not> isMastermindStructable exampleConfig \<and> \<not> isMastermindStructableOnly exampleConfig \<and>
   importWrites exampleConfig (columnLoop exampleEnv exampleConfig plainTable) = []\<close>
proof -
  have n: "spec_any_nullable exampleTable" by code_simp
  have t: "spec_any_temporal exampleTable" by code_simp
  have r: "\<not> spec_recorder_active exampleConfig" by code_simp
  have n': "\<not> spec_any_nullable plainTable" by code_simp
  have t': "\<not> spec_any_temporal plainTable" by code_simp
  have s: "\<not> isMastermindStructable exampleConfig" "\<not> isMastermindStructableOnly exampleConfig"
    by (simp_all add: exampleConfig_def)
  show ?thesis
    using C2_import_block [where env = exampleEnv and cfg = exampleConfig and table = exampleTable]
      C2_import_block [where env = exampleEnv and cfg = exampleConfig and table = plainTable] n t r n' t' s
    by (simp add: Let_def)
qed

text \<open>
  With an annotation mode enabled and the recorder flag unset, a table that needs no
  import still gets an import block, an empty one; and for a table with a nullable
  temporal column \<open>"database/sql"\<close> is written beside \<open>"github.com/lib/pq"\<close>.
\<close>

theorem C2_import_block_counterexample:
  \<open>\<not> spec_any_nullable plainTable \<and> \<not> spec_any_temporal plainTable \<and>
   \<not> spec_recorder_active (exampleConfig\<lparr>isMastermindStructable := True\<rparr>) \<and>
   importWrites (exampleConfig\<lparr>isMastermindStructable := True\<rparr>)
     (columnLoop exampleEnv (exampleConfig\<lparr>isMastermindStructable := True\<rparr>) plainTable) =
     [''import (\<newline>'', '')\<newline>\<newline>''] \<and>
   TAB # ''"database/sql"\<newline>'' \<in>
     set (importWrites exampleConfig (columnLoop exampleEnv exampleConfig exampleTable)) \<and>
   TAB # ''\<newline>"github.com/lib/pq"\<newline>'' \<in>
     set (importWrites exampleConfig (columnLoop exampleEnv exampleConfig exampleTable))\<close>
  by code_simp

lemma isPk_cases:
  "isPk column =
     (if Contains (String_val (ColumnDefault column)) ''nextval'' \<or>
         (Contains (ColumnKey column) ''PRI'' \<and> Contains (Extra column) ''auto_increment'')
      then '',PRIMARY_KEY,SERIAL,AUTO_INCREMENT'' else [])"
  by (simp add: isPk_def)

lemma annotation_columnStep:
  \<open>isMastermindStructable cfg \<or> isMastermindStructableOnly cfg \<Longrightarrow>
   mastermindStructableAnnotation (columnStep env cfg st column) =
     '' stbl:"'' @ ColumnName column @ isPk column @ ''"''\<close>
  by (simp add: columnStep_def Let_def)

lemma colBuffer_columnStep:
  \<open>colBuffer (columnStep env cfg st column) =
     colBuffer st @
     (TAB # formatName env cfg (ColumnName column) @ '' '' @
      fst (mapDbColumnTypeToGoType (DataType column) (IsNullable column)) @
      (if isMastermindStructableOnly cfg then '' `''
       else '' `db:"'' @ ColumnName column @ ''"'')) @
     mastermindStructableAnnotation (columnStep env cfg st column) @ ''`\<newline>''\<close>
  by (simp add: columnStep_def Let_def)

text \<open>
  Claim C7. When an annotation mode is enabled, for every column the primary-key flag is
  set exactly when the default-value text contains \<open>nextval\<close>, or the key text contains
  \<open>PRI\<close> and the extra text contains \<open>auto_increment\<close>. The annotation of such a column
  is the raw column name followed by the marker tokens
  \<open>,PRIMARY_KEY,SERIAL,AUTO_INCREMENT\<close>; the annotation of every other column holds the
  raw column name only. The annotation is part of the field line written for the column.
\<close>

theorem C7_annotation:
  assumes \<open>isMastermindStructable cfg \<or> isMastermindStructableOnly cfg\<close>
  shows \<open>let pk = (Contains (String_val (ColumnDefault column)) ''nextval'' \<or>
                   (Contains (ColumnKey column) ''PRI'' \<and>
                    Contains (Extra column) ''auto_increment''));
             annotation = mastermindStructableAnnotation (columnStep env cfg st column)
         in (isPk column = '',PRIMARY_KEY,SERIAL,AUTO_INCREMENT'' \<longleftrightarrow> pk) \<and>
            (isPk column = [] \<longleftrightarrow> \<not> pk) \<and>
            (pk \<longrightarrow>
               annotation =
                 '' stbl:"'' @ ColumnName column @ '',PRIMARY_KEY,SERIAL,AUTO_INCREMENT"'' \<and>
               Contains annotation '',PRIMARY_KEY,SERIAL,AUTO_INCREMENT'') \<and>
            (\<not> pk \<longrightarrow> annotation = '' stbl:"'' @ ColumnName column @ ''"'') \<and>
            Contains (colBuffer (columnStep env cfg st column)) annotation\<close>
proof -
  have marked: \<open>Contains ('' stbl:"'' @ ColumnName column @
      '',PRIMARY_KEY,SERIAL,AUTO_INCREMENT"'') '',PRIMARY_KEY,SERIAL,AUTO_INCREMENT''\<close>
    using Contains_middle [of \<open>'' stbl:"'' @ ColumnName column\<close>
        "'',PRIMARY_KEY,SERIAL,AUTO_INCREMENT''" \<open>''"''\<close>]
    by simp
  have written: "Contains (colBuffer (columnStep env cfg st column))
      (mastermindStructableAnnotation (columnStep env cfg st column))"
    by (metis Contains_middle append_assoc colBuffer_columnStep)
  show ?thesis
    using marked written
    by (simp add: Let_def annotation_columnStep [OF assms] isPk_cases)
qed


theorem C7_annotation_witness:
  \<open>(isMastermindStructable (exampleConfig\<lparr>isMastermindStructable := True\<rparr>) \<or>
    isMastermindStructableOnly (exampleConfig\<lparr>isMastermindStructable := True\<rparr>)) \<and>
   Contains (String_val (ColumnDefault serialColumn)) ''nextval'' \<and>
   mastermindStructableAnnotation
     (columnStep exampleEnv (exampleConfig\<lparr>isMastermindStructable := True\<rparr>) initialState serialColumn) =
     '' stbl:"id,PRIMARY_KEY,SERIAL,AUTO_INCREMENT"'' \<and>
   Contains (ColumnKey autoIncrementColumn) ''PRI'' \<and>
   Contains (Extra autoIncrementColumn) ''auto_increment'' \<and>
   mastermindStructableAnnotation
     (columnStep exampleEnv (exampleConfig\<lparr>isMastermindStructable := True\<rparr>) initialState
        autoIncrementColumn) =
     '' stbl:"id,PRIMARY_KEY,SERIAL,AUTO_INCREMENT"'' \<and>
   \<not> (Contains (String_val (ColumnDefault (exampleColumn 2 ''name'' ''text'' ''YES''))) ''nextval'' \<or>
      (Contains (ColumnKey (exampleColumn 2 ''name'' ''text'' ''YES'')) ''PRI'' \<and>
       Contains (Extra (exampleColumn 2 ''name'' ''text'' ''YES'')) ''auto_increment'')) \<and>
   mastermindStructableAnnotation
     (columnStep exampleEnv (exampleConfig\<lparr>isMastermindStructable := True\<rparr>) initialState
        (exampleColumn 2 ''name'' ''text'' ''YES'')) =
     '' stbl:"name"''\<close>
proof -
  let ?cfg = "exampleConfig\<lparr>isMastermindStructable := True\<rparr>"
  have mode: "isMastermindStructable ?cfg \<or> isMastermindStructableOnly ?cfg" by simp
  have pg: "Contains (String_val (ColumnDefault serialColumn)) ''nextval''" by code_simp
  have my: "Contains (ColumnKey autoIncrementColumn) ''PRI''"
    "Contains (Extra autoIncrementColumn) ''auto_increment''" by code_simp+
  have other:
    "\<not> Contains (String_val (ColumnDefault (exampleColumn 2 ''name'' ''text'' ''YES''))) ''nextval''"
    "\<not> Contains (ColumnKey (exampleColumn 2 ''name'' ''text'' ''YES'')) ''PRI''"
    by code_simp+
  have names: "ColumnName serialColumn = ''id''" "ColumnName autoIncrementColumn = ''id''"
    "ColumnName (exampleColumn 2 ''name'' ''text'' ''YES'') = ''name''"
    by (simp_all add: serialColumn_def autoIncrementColumn_def exampleColumn_def)
  show ?thesis
    using C7_annotation [OF mode, where env = exampleEnv and column = serialColumn and st = initialState]
      C7_annotation [OF mode, where env = exampleEnv and column = autoIncrementColumn and st = initialState]
      C7_annotation [OF mode, where env = exampleEnv and st = initialState
        and column = "exampleColumn 2 ''name'' ''text'' ''YES''"]
      mode pg my other names
    by (simp add: Let_def)
qed

lemma mapDbColumnTypeToGoType_by_family:
  "mapDbColumnTypeToGoType t n =
     (case spec_family_of t of
        None \<Rightarrow> (''sql.NullString'', False)
      | Some f \<Rightarrow> (if n = ''YES'' then spec_wrapper f else spec_plain f, f = TemporalFamily))"
  unfolding mapDbColumnTypeToGoType_families spec_family_of_cases
  by (simp del: spec_members.simps)

lemma wrapper_is_wrapper: "spec_is_nullable_wrapper (spec_wrapper f)"
  by (cases f) (simp_all add: spec_is_nullable_wrapper_def)

lemma plain_is_not_wrapper: "\<not> spec_is_nullable_wrapper (spec_plain f)"
  by (cases f) (simp_all add: spec_is_nullable_wrapper_def)

lemma sql_import_written:
  \<open>TAB # ''"database/sql"\<newline>'' \<in> set (importWrites cfg (columnLoop env cfg table)) \<longleftrightarrow>
   spec_any_nullable table\<close>
  unfolding importWrites_def isNullable_columnLoop timeIndicator_columnLoop
  by auto

text \<open>
  Claim C10, amended. For every column whose data type belongs to one of the families,
  the type mapper selects a nullable wrapper type if and only if the nullability text
  is exactly \<open>"YES"\<close>; for a data type of no family it selects \<open>sql.NullString\<close>
  whatever the nullability text is. The emitter counts a column toward the nullable
  import if and only if its nullability text is exactly \<open>"YES"\<close>: the flag after the
  loop, and the writing of the \<open>"database/sql"\<close> import, hold exactly when some column
  has that text.
\<close>

theorem C10_nullable_is_YES:
  \<open>(spec_family_of (DataType column) \<noteq> None \<longrightarrow>
      (spec_is_nullable_wrapper
         (fst (mapDbColumnTypeToGoType (DataType column) (IsNullable column))) \<longleftrightarrow>
       IsNullable column = ''YES'')) \<and>
   (spec_family_of (DataType column) = None \<longrightarrow>
      fst (mapDbColumnTypeToGoType (DataType column) (IsNullable column)) = ''sql.NullString'') \<and>
   (isNullable (columnStep env cfg st column) \<longleftrightarrow> isNullable st \<or> IsNullable column = ''YES'') \<and>
   (isNullable (columnLoop env cfg table) \<longleftrightarrow>
      (\<exists>column\<in>set (Columns table). IsNullable column = ''YES'')) \<and>
   (TAB # ''"database/sql"\<newline>'' \<in> set (importWrites cfg (columnLoop env cfg table)) \<longleftrightarrow>
      (\<exists>column\<in>set (Columns table). IsNullable column = ''YES''))\<close>
proof -
  have known: "spec_is_nullable_wrapper
       (fst (mapDbColumnTypeToGoType (DataType column) (IsNullable column))) \<longleftrightarrow>
     IsNullable column = ''YES''"
    if "spec_family_of (DataType column) \<noteq> None"
    using that
    by (auto simp add: mapDbColumnTypeToGoType_by_family wrapper_is_wrapper plain_is_not_wrapper
        split: if_splits)
  have unknown: "fst (mapDbColumnTypeToGoType (DataType column) (IsNullable column)) =
      ''sql.NullString''"
    if "spec_family_of (DataType column) = None"
    using that by (simp add: mapDbColumnTypeToGoType_by_family)
  show ?thesis
    using known unknown
    by (simp add: isNullable_columnStep isNullable_columnLoop sql_import_written
        spec_any_nullable_def)
qed

theorem C10_nullable_is_YES_witness:
  \<open>spec_family_of (DataType (exampleColumn 2 ''created_at'' ''timestamp'' ''YES'')) \<noteq> None \<and>
   fst (mapDbColumnTypeToGoType ''timestamp'' ''YES'') = ''pq.NullTime'' \<and>
   spec_is_nullable_wrapper ''pq.NullTime'' \<and>
   spec_family_of (DataType (exampleColumn 1 ''id'' ''integer'' ''yes'')) \<noteq> None \<and>
   \<not> spec_is_nullable_wrapper (fst (mapDbColumnTypeToGoType ''integer'' ''yes'')) \<and>
   spec_family_of (DataType (exampleColumn 3 ''doc'' ''json'' ''NO'')) = None \<and>
   fst (mapDbColumnTypeToGoType ''json'' ''NO'') = ''sql.NullString'' \<and>
   (\<exists>column\<in>set (Columns exampleTable). IsNullable column = ''YES'') \<and>
   TAB # ''"database/sql"\<newline>'' \<in>
     set (importWrites exampleConfig (columnLoop exampleEnv exampleConfig exampleTable))\<close>
proof -
  have fam: "spec_family_of (DataType (exampleColumn 2 ''created_at'' ''timestamp'' ''YES'')) \<noteq> None"
    "spec_family_of (DataType (exampleColumn 1 ''id'' ''integer'' ''yes'')) \<noteq> None"
    "spec_family_of (DataType (exampleColumn 3 ''doc'' ''json'' ''NO'')) = None"
    by code_simp+
  have val: "fst (mapDbColumnTypeToGoType ''timestamp'' ''YES'') = ''pq.NullTime''" by code_simp
  have some: "\<exists>column\<in>set (Columns exampleTable). IsNullable column = ''YES''" by code_simp
  have sel: "DataType (exampleColumn p n t y) = t" "IsNullable (exampleColumn p n t y) = y"
    for p n t y by (simp_all add: exampleColumn_def)
  show ?thesis
    using C10_nullable_is_YES [where env = exampleEnv and cfg = exampleConfig and st = initialState
        and table = exampleTable and column = "exampleColumn 2 ''created_at'' ''timestamp'' ''YES''"]
      C10_nullable_is_YES [where env = exampleEnv and cfg = exampleConfig and st = initialState
        and table = exampleTable and column = "exampleColumn 1 ''id'' ''integer'' ''yes''"]
      C10_nullable_is_YES [where env = exampleEnv and cfg = exampleConfig and st = initialState
        and table = exampleTable and column = "exampleColumn 3 ''doc'' ''json'' ''NO''"]
      fam val some
    by (simp add: sel)
qed

text \<open>
  For a data type of no family the mapper selects a nullable wrapper type although
  the nullability text is not \<open>"YES"\<close>.
\<close>

theorem C10_nullable_is_YES_counterexample:
  "mapDbColumnTypeToGoType ''json'' ''NO'' = (''sql.NullString'', False) \<and>
   spec_is_nullable_wrapper (fst (mapDbColumnTypeToGoType ''json'' ''NO'')) \<and>
   ''NO'' \<noteq> ''YES''"
  by code_simp

section \<open>Properties of the written file\<close>

text \<open>
  The end-to-end example of the specification: the struct \<open>OrderItems\<close> with the
  fields \<open>Id\<close>, \<open>OrderId\<close> and \<open>Note\<close> in this order, and the single import
  \<open>"database/sql"\<close>.
\<close>

lemma order_items_source:
  \<open>structSource exampleEnv exampleConfig orderItemsTable =
     ''package dto\<newline>\<newline>import (\<newline>'' @ TAB # ''"database/sql"\<newline>)\<newline>\<newline>'' @
     ''type OrderItems struct {\<newline>'' @
     TAB # ''Id int `db:"id"`\<newline>'' @
     TAB # ''OrderId int `db:"order_id"`\<newline>'' @
     TAB # ''Note sql.NullString `db:"note"`\<newline>'' @
     ''}''\<close>
  by code_simp

lemma createStructOfTable_created:
  assumes "osCreate env (outputFile env cfg table) = None"
  shows "createStructOfTable env cfg table fs =
           (None, fs(outputFile env cfg table \<mapsto>
              (case formatSource env (structSource env cfg table) of
                 Inl err \<Rightarrow> [] | Inr formatted \<Rightarrow> formatted)))"
  using assms by (simp add: createStructOfTable_def Let_def)









lemma odd_source:
  \<open>structSource env exampleConfig oddTable =
     ''package dto\<newline>\<newline>type Login struct {\<newline>'' @
     TAB # ''2faCode int `db:"2fa_code"`\<newline>}''\<close>
  by code_simp

lemma odd_file: "outputFile env exampleConfig oddTable = ''/outLogin.go''"
  by code_simp

text \<open>
  Claim C3 says that when \<open>format.Source\<close> fails the unformatted source text is
  written. The code discards the error and writes the first result of
  \<open>format.Source\<close>, which is nil then: for the table \<open>login\<close> with the column
  \<open>2fa_code\<close>, whose field name \<open>2faCode\<close> is no Go identifier, the source text is
  not empty, formatting fails, no error is returned, and the file is created with no
  content.
\<close>

theorem C3_format_failure_writes_nothing:
  \<open>structSource formatFailsEnv exampleConfig oddTable =
     ''package dto\<newline>\<newline>type Login struct {\<newline>'' @
     TAB # ''2faCode int `db:"2fa_code"`\<newline>}'' \<and>
   formatSource formatFailsEnv (structSource formatFailsEnv exampleConfig oddTable) =
     Inl (Error ''expected identifier'') \<and>
   createStructOfTable formatFailsEnv exampleConfig oddTable Map.empty =
     (None, [''/outLogin.go'' \<mapsto> []])\<close>
proof -
  have ok: "osCreate formatFailsEnv (outputFile formatFailsEnv exampleConfig oddTable) = None"
    by (simp add: formatFailsEnv_def exampleEnv_def)
  have fails: "formatSource formatFailsEnv src = Inl (Error ''expected identifier'')" for src
    by (simp add: formatFailsEnv_def)
  from createStructOfTable_created [OF ok, of Map.empty]
  have "createStructOfTable formatFailsEnv exampleConfig oddTable Map.empty =
      (None, [''/outLogin.go'' \<mapsto> []])"
    unfolding odd_file by (simp add: fails)
  with odd_source [of formatFailsEnv] fails [of "structSource formatFailsEnv exampleConfig oddTable"]
  show ?thesis by (intro conjI)
qed

section \<open>Properties of the schema reader and of connecting\<close>

lemma GetColumnsOfTable_no_error: "fst (GetColumnsOfTable env cfg db table) = None"
  by (simp add: GetColumnsOfTable_def Let_def)

lemma user_source:
  \<open>structSource env exampleConfig \<lparr>TableName = ''user'', Columns = []\<rparr> =
     ''package dto\<newline>\<newline>type User struct {\<newline>}''\<close>
  by code_simp

lemma user_file:
  "outputFile env exampleConfig \<lparr>TableName = ''user'', Columns = []\<rparr> = ''/outUser.go''"
  by code_simp

text \<open>
  Claim C4 says that a failing column query makes \<open>GetColumnsOfTable\<close> return an error,
  on which \<open>run\<close> stops. The code never assigns the result of \<open>Select\<close>: with a
  column query that fails, \<open>GetColumnsOfTable\<close> returns no error for either database
  kind and leaves the table without columns, and \<open>run\<close> goes on, writes a struct
  without fields for the table and returns no error.
\<close>

theorem C4_query_failure_not_reported:
  \<open>stmtSelect queryFailsEnv ''user'' ''public'' = Inl (Error ''query failed'') \<and>
   GetColumnsOfTable queryFailsEnv exampleConfig PostgreDatabase
     \<lparr>TableName = ''user'', Columns = []\<rparr> = (None, \<lparr>TableName = ''user'', Columns = []\<rparr>) \<and>
   GetColumnsOfTable queryFailsEnv exampleConfig MySQLDatabase
     \<lparr>TableName = ''user'', Columns = []\<rparr> = (None, \<lparr>TableName = ''user'', Columns = []\<rparr>) \<and>
   run queryFailsEnv exampleConfig PostgreDatabase Map.empty =
     (None, [''/outUser.go'' \<mapsto> ''package dto\<newline>\<newline>type User struct {\<newline>}''])\<close>
proof -
  let ?t = "\<lparr>TableName = ''user'', Columns = []\<rparr>"
  have sel: "stmtSelect queryFailsEnv tableName scope = Inl (Error ''query failed'')"
    for tableName scope by (simp add: queryFailsEnv_def)
  have cols: "GetColumnsOfTable queryFailsEnv exampleConfig db ?t = (None, ?t)" for db
    by (simp add: GetColumnsOfTable_def Let_def sel)
  have tables: "GetTables queryFailsEnv exampleConfig PostgreDatabase = (None, [?t])"
    by (simp add: GetTables_def queryFailsEnv_def exampleEnv_def)
  have prep: "PrepareGetColumnsOfTableStmt queryFailsEnv = None"
    by (simp add: PrepareGetColumnsOfTableStmt_def queryFailsEnv_def exampleEnv_def)
  have ok: "osCreate queryFailsEnv (outputFile queryFailsEnv exampleConfig ?t) = None"
    by (simp add: queryFailsEnv_def exampleEnv_def)
  have fmt: "formatSource queryFailsEnv src = Inr src" for src
    by (simp add: queryFailsEnv_def exampleEnv_def)
  from createStructOfTable_created [OF ok, of Map.empty]
  have written: "createStructOfTable queryFailsEnv exampleConfig ?t Map.empty =
      (None, [''/outUser.go'' \<mapsto> structSource queryFailsEnv exampleConfig ?t])"
    unfolding user_file by (simp add: fmt)
  have "run queryFailsEnv exampleConfig PostgreDatabase Map.empty =
      (None, [''/outUser.go'' \<mapsto> structSource queryFailsEnv exampleConfig ?t])"
    by (simp add: run_def tables prep cols written)
  then show ?thesis using sel cols by (simp only: user_source simp_thms)
qed

text \<open>
  Claim C9. For two configurations that differ only in their non-empty passwords, when
  connecting fails for both, \<open>connect\<close> returns the same error for both: its message
  is made of the database type, user, database name, host and port and of the word
  \<open>yes\<close>, which says that a password was supplied; the password is no part of it.
\<close>

theorem C9_password_not_in_message:
  assumes "sqlxConnect env (dbTypeToDriverMap (dbType cfg)) (prepareDataSourceName cfg) \<noteq> None"
    and "sqlxConnect env (dbTypeToDriverMap (dbType cfg')) (prepareDataSourceName cfg') \<noteq> None"
    and "pswd cfg \<noteq> []" and "pswd cfg' \<noteq> []"
    and "cfg' = cfg\<lparr>pswd := pswd cfg'\<rparr>"
  shows "connect env cfg = connect env cfg' \<and>
         connect env cfg =
           Some (Error
             (''Connection to Database (type='' @ fmtQuote env (dbType cfg) @
              '', user='' @ fmtQuote env (user cfg) @
              '', database='' @ fmtQuote env (dbName cfg) @
              '', host='' @ [CHR 0x27] @ host cfg @ '':'' @ port cfg @ [CHR 0x27] @
              '' (using password: yes) failed!''))"
proof -
  have same: "dbType cfg' = dbType cfg" "user cfg' = user cfg" "dbName cfg' = dbName cfg"
    "host cfg' = host cfg" "port cfg' = port cfg"
    by (subst assms(5), simp)+
  obtain e where e: "sqlxConnect env (dbTypeToDriverMap (dbType cfg)) (prepareDataSourceName cfg) = Some e"
    using assms(1) by auto
  obtain e' where e': "sqlxConnect env (dbTypeToDriverMap (dbType cfg)) (prepareDataSourceName cfg') = Some e'"
    using assms(2) same by auto
  have one: "connect env cfg =
      Some (Error
        (''Connection to Database (type='' @ fmtQuote env (dbType cfg) @
         '', user='' @ fmtQuote env (user cfg) @
         '', database='' @ fmtQuote env (dbName cfg) @
         '', host='' @ [CHR 0x27] @ host cfg @ '':'' @ port cfg @ [CHR 0x27] @
         '' (using password: yes) failed!''))"
    using assms(3) by (simp add: connect_def e Let_def)
  have two: "connect env cfg' =
      Some (Error
        (''Connection to Database (type='' @ fmtQuote env (dbType cfg) @
         '', user='' @ fmtQuote env (user cfg) @
         '', database='' @ fmtQuote env (dbName cfg) @
         '', host='' @ [CHR 0x27] @ host cfg @ '':'' @ port cfg @ [CHR 0x27] @
         '' (using password: yes) failed!''))"
    using assms(4) by (simp add: connect_def same e' Let_def)
  show ?thesis using one two by simp
qed

theorem C9_password_not_in_message_witness:
  \<open>sqlxConnect connectFailsEnv (dbTypeToDriverMap (dbType (exampleConfig\<lparr>pswd := ''secret''\<rparr>)))
     (prepareDataSourceName (exampleConfig\<lparr>pswd := ''secret''\<rparr>)) \<noteq> None \<and>
   sqlxConnect connectFailsEnv (dbTypeToDriverMap (dbType (exampleConfig\<lparr>pswd := ''hunter2''\<rparr>)))
     (prepareDataSourceName (exampleConfig\<lparr>pswd := ''hunter2''\<rparr>)) \<noteq> None \<and>
   pswd (exampleConfig\<lparr>pswd := ''secret''\<rparr>) \<noteq> [] \<and>
   pswd (exampleConfig\<lparr>pswd := ''hunter2''\<rparr>) \<noteq> [] \<and>
   exampleConfig\<lparr>pswd := ''hunter2''\<rparr> =
     (exampleConfig\<lparr>pswd := ''secret''\<rparr>)\<lparr>pswd := pswd (exampleConfig\<lparr>pswd := ''hunter2''\<rparr>)\<rparr> \<and>
   connect connectFailsEnv (exampleConfig\<lparr>pswd := ''secret''\<rparr>) =
     connect connectFailsEnv (exampleConfig\<lparr>pswd := ''hunter2''\<rparr>) \<and>
   connect connectFailsEnv (exampleConfig\<lparr>pswd := ''secret''\<rparr>) =
     Some (Error (''Connection to Database (type="pg", user="postgres", database="postgres", '' @
                  ''host='127.0.0.1:5432' (using password: yes) failed!''))\<close>
proof -
  let ?c = "exampleConfig\<lparr>pswd := ''secret''\<rparr>"
  let ?c' = "exampleConfig\<lparr>pswd := ''hunter2''\<rparr>"
  have f: "sqlxConnect connectFailsEnv (dbTypeToDriverMap (dbType ?c)) (prepareDataSourceName ?c) \<noteq> None"
    by (simp add: connectFailsEnv_def)
  have f': "sqlxConnect connectFailsEnv (dbTypeToDriverMap (dbType ?c')) (prepareDataSourceName ?c') \<noteq> None"
    by (simp add: connectFailsEnv_def)
  have p: "pswd ?c \<noteq> []" by simp
  have p': "pswd ?c' \<noteq> []" by simp
  have u: "?c' = ?c\<lparr>pswd := pswd ?c'\<rparr>" by simp
  have q: "fmtQuote connectFailsEnv s = [CHR 0x22] @ s @ [CHR 0x22]" for s
    by (simp add: connectFailsEnv_def exampleEnv_def)
  have fields: "dbType ?c = ''pg''" "user ?c = ''postgres''" "dbName ?c = ''postgres''"
    "host ?c = ''127.0.0.1''" "port ?c = ''5432''"
    by (simp_all add: exampleConfig_def)
  note inst = C9_password_not_in_message [OF f f' p p' u]
  from inst have eq: "connect connectFailsEnv ?c = connect connectFailsEnv ?c'"
    by (rule conjunct1)
  from inst [THEN conjunct2] have \<open>connect connectFailsEnv ?c =
      Some (Error (''Connection to Database (type="pg", user="postgres", database="postgres", '' @
                   ''host='127.0.0.1:5432' (using password: yes) failed!''))\<close>
    by (simp add: q fields)
  with f f' p p' u eq show ?thesis by (intro conjI)
qed

end
